theory Spec2Isabelle
  imports Main "HOL-Library.Word"
begin

unbundle bit_operations_syntax

section \<open>Machine types and errors\<close>

text \<open>
  The library targets 64-bit Windows: \<open>size_t\<close> is a 64-bit unsigned integer,
  \<open>DWORD\<close> a 32-bit one, \<open>uint8_t\<close> a byte, a \<open>HANDLE\<close> a pointer-sized
  value. Object representations are little-endian.
\<close>

type_synonym byte = "8 word"
type_synonym size_t = "64 word"
type_synonym dword = "32 word"

text \<open>
  \<open>ipc::Error\<close> (error.h): a runtime error with a text and, for the two-argument
  constructor, the operating system's error code.
\<close>

datatype error = Error string "dword option"

section \<open>Serialization (serialization.h)\<close>

subsection \<open>Object representation of primitive values\<close>

text \<open>
  \<open>serialize\<close> and \<open>deserialize\<close> copy the object representation of a
  value and never look into it. So a value of a primitive (non-string) type \<open>T\<close>
  is modelled by its object representation, a word of the width of \<open>T\<close>: an
  integer, a character, an enumerator, a pointer, the bit pattern of a floating-point
  number; two values are equal when their representations are. \<open>sizeof(T)\<close> is
  the number of bytes of that width, and \<open>to_bytes\<close> gives the bytes that
  \<open>reinterpret_cast<const uint8_t*>(&val)\<close> exposes (least significant byte first).
\<close>

definition sizeof :: "'a::len word itself \<Rightarrow> nat" where
  "sizeof _ = (LENGTH('a) + 7) div 8"

fun to_bytes :: "nat \<Rightarrow> 'a::len word \<Rightarrow> byte list" where
  "to_bytes 0 w = []"
| "to_bytes (Suc n) w = ucast w # to_bytes n (drop_bit 8 w)"

text \<open>The value that \<open>*reinterpret_cast<const T*>(p)\<close> reads from the bytes at \<open>p\<close>.\<close>

fun from_bytes :: "byte list \<Rightarrow> 'a::len word" where
  "from_bytes [] = 0"
| "from_bytes (b # bs) = ucast b OR push_bit 8 (from_bytes bs)"

subsection \<open>Serializing\<close>





subsection \<open>Deserializing\<close>

text \<open>
  A \<open>const uint8_t*\<close> returned by \<open>Take\<close>: null, or \<open>buffer_.data() + off\<close>.
\<close>

datatype ptr = Nullptr | Ptr nat

text \<open>
  \<open>VectorDeserializationBufferAdapter\<close>: the vector it refers to and the read
  position. The two-argument constructor accepts any position.
\<close>

record VectorDeserializationBufferAdapter =
  buffer :: "byte list"
  pos :: size_t

text \<open>
  \<open>Take\<close>. \<open>buffer_.size() - pos_\<close> is a subtraction of \<open>size_t\<close> values and
  wraps around; so does \<open>pos_ += dataSize\<close>. A throwing call returns the adapter
  as it was.
\<close>

definition Take ::
  "size_t \<Rightarrow> VectorDeserializationBufferAdapter \<Rightarrow>
     (error + ptr) \<times> VectorDeserializationBufferAdapter" where
  "Take dataSize src =
     (if dataSize = 0 then (Inr Nullptr, src)
      else if dataSize > of_nat (length (buffer src)) - pos src
        then (Inl (Error ''Data of requested size not available.'' None), src)
      else (Inr (Ptr (unat (pos src))), src\<lparr>pos := pos src + dataSize\<rparr>))"

text \<open>
  What goes wrong when deserializing: the exception of \<open>Take\<close>, or undefined
  behaviour of the C++ program (reading through a null pointer, reading past the end
  of the vector's storage).
\<close>

datatype fault = Thrown error | NullDereference | OutOfBoundsRead

text \<open>Reading \<open>n\<close> bytes through a pointer into the vector's storage.\<close>

fun load :: "byte list \<Rightarrow> ptr \<Rightarrow> nat \<Rightarrow> fault + byte list" where
  "load buf Nullptr n = Inl NullDereference"
| "load buf (Ptr off) n =
     (if off + n \<le> length buf then Inr (take n (drop off buf)) else Inl OutOfBoundsRead)"

text \<open>\<open>deserialize<T>\<close> for all types except strings.\<close>

definition deserialize ::
  "VectorDeserializationBufferAdapter \<Rightarrow>
     (fault + 'a::len word) \<times> VectorDeserializationBufferAdapter" where
  "deserialize source =
     (case Take (of_nat (sizeof TYPE('a word))) source of
        (Inl e, source') \<Rightarrow> (Inl (Thrown e), source')
      | (Inr p, source') \<Rightarrow>
          (case load (buffer source') p (sizeof TYPE('a word)) of
             Inl f \<Rightarrow> (Inl f, source')
           | Inr bs \<Rightarrow> (Inr (from_bytes bs), source')))"

text \<open>
  The constructor \<open>basic_string(const Char_t*)\<close>, which the string overload of
  \<open>deserialize\<close> reaches through the implicit conversion of its return value: it
  reads character units from the pointer up to, and not including, the first zero
  unit.
\<close>

function c_str_at :: "byte list \<Rightarrow> nat \<Rightarrow> fault + 'a::len word list" where
  "c_str_at buf off =
     (if length buf < off + sizeof TYPE('a word) then Inl OutOfBoundsRead
      else let c = (from_bytes (take (sizeof TYPE('a word)) (drop off buf)) :: 'a word) in
        if c = 0 then Inr []
        else (case c_str_at buf (off + sizeof TYPE('a word)) of
                Inl f \<Rightarrow> Inl f
              | Inr cs \<Rightarrow> Inr (c # cs)))"
  by pat_completeness auto
termination
proof (relation "measure (\<lambda>(buf, off). length buf - off)")
  fix buf :: "byte list" and off :: nat
  assume "\<not> length buf < off + sizeof TYPE('a word)"
  moreover have "1 \<le> LENGTH('a)"
    by (simp add: Suc_leI)
  then have "0 < sizeof TYPE('a word)"
    unfolding sizeof_def by arith
  ultimately show "((buf, off + sizeof TYPE('a word)), buf, off)
      \<in> measure (\<lambda>(buf, off). length buf - off)"
    by simp
qed simp

fun c_str :: "byte list \<Rightarrow> ptr \<Rightarrow> fault + 'a::len word list" where
  "c_str buf Nullptr = Inl NullDereference"
| "c_str buf (Ptr off) = c_str_at buf off"

text \<open>
  \<open>deserialize<T>\<close> for strings: the length as a \<open>size_t\<close>, then
  \<open>Take(lenPlusTerminator)\<close> (a number of bytes), then the string built from the
  pointer.
\<close>

definition deserialize_string ::
  "VectorDeserializationBufferAdapter \<Rightarrow>
     (fault + 'a::len word list) \<times> VectorDeserializationBufferAdapter" where
  "deserialize_string source =
     (case (deserialize source :: (fault + size_t) \<times> VectorDeserializationBufferAdapter) of
        (Inl f, source') \<Rightarrow> (Inl f, source')
      | (Inr lenPlusTerminator, source') \<Rightarrow>
          (case Take lenPlusTerminator source' of
             (Inl e, source'') \<Rightarrow> (Inl (Thrown e), source'')
           | (Inr p, source'') \<Rightarrow>
               (case c_str (buffer source'') p of
                  Inl f \<Rightarrow> (Inl f, source'')
                | Inr s \<Rightarrow> (Inr s, source''))))"


section \<open>The operating system as the pipes see it\<close>

text \<open>
  Handles and the constants of the Windows headers that pipes.h uses.
\<close>

type_synonym handle = "64 word"

definition NULL_HANDLE :: handle where "NULL_HANDLE = 0"
definition INVALID_HANDLE_VALUE :: handle where "INVALID_HANDLE_VALUE = - 1"

definition ERROR_SUCCESS :: dword where "ERROR_SUCCESS = 0"
definition ERROR_FILE_NOT_FOUND :: dword where "ERROR_FILE_NOT_FOUND = 2"
definition ERROR_SEM_TIMEOUT :: dword where "ERROR_SEM_TIMEOUT = 121"
definition ERROR_PIPE_BUSY :: dword where "ERROR_PIPE_BUSY = 231"
definition ERROR_MORE_DATA :: dword where "ERROR_MORE_DATA = 234"
definition ERROR_PIPE_CONNECTED :: dword where "ERROR_PIPE_CONNECTED = 535"
definition ERROR_IO_PENDING :: dword where "ERROR_IO_PENDING = 997"

text \<open>
  The calls of the Windows API that the pipes make, with the arguments that matter:
  the pipe's name or handle, the number of bytes a read asks for, the bytes a write
  hands over, the time a wait may take.
\<close>

datatype oscall =
    CreateNamedPipeA string dword dword
  | ConnectNamedPipe handle
  | SetEvent handle
  | GetOverlappedResult handle
  | ReadFileEx handle dword
  | WriteFileEx handle "byte list"
  | DisconnectNamedPipe handle
  | CloseHandle handle
  | SetLastError dword
  | CreateFile string
  | SetNamedPipeHandleState handle
  | WaitNamedPipe string dword

text \<open>
  The system's answer to a call: the value the call returns (a \<open>BOOL\<close> or a
  handle) and the error code it stores as the thread's last error, if it stores one.
\<close>

record answer =
  ret :: "64 word"
  err :: "dword option"

text \<open>
  An asynchronous operation that the system has accepted and not yet completed, and
  the completion it reports to the routine given with the operation: the error code
  and, for a read, the bytes it has put at the start of the buffer (their number is
  the routine's second argument).
\<close>

datatype operation = ReadOp dword | WriteOp "byte list"

datatype completion = ReadDone dword "byte list" | WriteDone dword dword

text \<open>
  What an observer sees of a pipe: the calls made with the system's answers, and the
  notifications sent to the callbacks. Each is written to a log when it happens;
  the log takes no part in what the pipe does.
\<close>

datatype notification =
    PipeConnected
  | DataReceived "byte list"
  | PartialDataReceived "byte list"
  | DataSent

datatype event = Api oscall answer | Notify notification

text \<open>
  The world a pipe runs in: the state of the operating system (of any type), the
  thread's last error (\<open>GetLastError()\<close>), the log of events, and the
  operations in flight. The operating system is a function that answers a call in a
  state and moves to the next state.
\<close>

record 'os world =
  os_state :: 'os
  lastError :: dword
  trace :: "event list"
  inflight :: "operation list"

type_synonym 'os os = "oscall \<Rightarrow> 'os \<Rightarrow> answer \<times> 'os"

definition issued :: "oscall \<Rightarrow> answer \<Rightarrow> operation list" where
  "issued c a =
     (if ret a = 0 then []
      else case c of
          ReadFileEx h n \<Rightarrow> [ReadOp n]
        | WriteFileEx h bs \<Rightarrow> [WriteOp bs]
        | _ \<Rightarrow> [])"

definition api :: "'os os \<Rightarrow> oscall \<Rightarrow> 'os world \<Rightarrow> answer \<times> 'os world" where
  "api os c w =
     (let (a, s) = os c (os_state w) in
      (a, w\<lparr>os_state := s,
             lastError := (case err a of None \<Rightarrow> lastError w | Some e \<Rightarrow> e),
             trace := trace w @ [Api c a],
             inflight := inflight w @ issued c a\<rparr>))"

text \<open>\<open>SetLastError\<close> stores its argument as the thread's last error.\<close>

definition set_last_error :: "'os os \<Rightarrow> dword \<Rightarrow> 'os world \<Rightarrow> 'os world" where
  "set_last_error os e w = (snd (api os (SetLastError e) w))\<lparr>lastError := e\<rparr>"

definition notify :: "notification \<Rightarrow> 'os world \<Rightarrow> 'os world" where
  "notify n w = w\<lparr>trace := trace w @ [Notify n]\<rparr>"

section \<open>The server-side pipe (pipes.h, CrPipe)\<close>

text \<open>
  The template parameters \<open>N\<close> (capacity of the read buffer) and \<open>M\<close> (capacity
  of the write buffer), and whether the program is compiled with \<open>NDEBUG\<close>, which
  turns \<open>assert\<close> into nothing.
\<close>

record config =
  N :: nat
  M :: nat
  NDEBUG :: bool

text \<open>
  The fields of \<open>CrPipe\<close>. Of \<open>info_\<close> the event handle and whether \<open>self\<close>
  points to the pipe are kept.
\<close>

record CrPipe =
  info_hEvent :: handle
  info_self :: bool
  pipeHandle :: handle
  readBuffer :: "byte list"
  writeBuffer :: "byte list"
  isConnectionPending :: bool
  isConnected :: bool

text \<open>
  How a call ends: it returns, it throws an \<open>Error\<close>, or an assertion stops the
  program. With it come the pipe (\<open>None\<close> once the pipe has deleted itself) and
  the world.
\<close>

datatype control = Returned | Threw error | Aborted

type_synonym 'os outcome = "control \<times> CrPipe option \<times> 'os world"

text \<open>\<open>CrPipeCallbacks\<close>: the four virtual functions.\<close>

record 'os CrPipeCallbacks =
  OnPipeConnected :: "CrPipe \<Rightarrow> 'os world \<Rightarrow> 'os outcome"
  OnDataReceived :: "CrPipe \<Rightarrow> byte list \<Rightarrow> 'os world \<Rightarrow> 'os outcome"
  OnPartialDataReceived :: "CrPipe \<Rightarrow> byte list \<Rightarrow> 'os world \<Rightarrow> 'os outcome"
  OnDataSent :: "CrPipe \<Rightarrow> 'os world \<Rightarrow> 'os outcome"

text \<open>\<open>Handle::operator bool\<close> (win_util.h).\<close>

definition handle_valid :: "handle \<Rightarrow> bool" where
  "handle_valid h = (h \<noteq> NULL_HANDLE \<and> h \<noteq> INVALID_HANDLE_VALUE)"

text \<open>
  \<open>CrPipe::Disconnect\<close>: \<open>DisconnectNamedPipe\<close>, and an \<open>Error\<close> if it fails;
  otherwise \<open>delete this\<close>, where the destructor of the \<open>Handle\<close> member closes
  a valid handle.
\<close>

definition Disconnect :: "'os os \<Rightarrow> CrPipe \<Rightarrow> 'os world \<Rightarrow> 'os outcome" where
  "Disconnect os p w =
     (let (a, w1) = api os (DisconnectNamedPipe (pipeHandle p)) w in
      if ret a = 0
        then (Threw (Error ''Win API DisconnectNamedPipe failed.'' (Some (lastError w1))),
              Some p, w1)
      else if handle_valid (pipeHandle p)
        then (Returned, None, snd (api os (CloseHandle (pipeHandle p)) w1))
      else (Returned, None, w1))"

text \<open>
  \<open>CrPipe::ListenForData\<close>. The capacity \<open>N\<close> is passed as a \<open>DWORD\<close>.
\<close>

definition ListenForData :: "config \<Rightarrow> 'os os \<Rightarrow> CrPipe \<Rightarrow> 'os world \<Rightarrow> 'os outcome" where
  "ListenForData cfg os p w =
     (if \<not> isConnected p then (Returned, Some p, w)
      else let (a, w1) = api os (ReadFileEx (pipeHandle p) (of_nat (N cfg))) w in
        if ret a = 0 then Disconnect os p w1 else (Returned, Some p, w1))"

text \<open>
  \<open>CrPipe::SendData\<close>. The pair \<open>(data, dataSize)\<close> is the list of the
  \<open>dataSize\<close> bytes at \<open>data\<close>. The number of bytes to send is cast to a
  \<open>DWORD\<close> for the write.
\<close>

definition SendData ::
  "config \<Rightarrow> 'os os \<Rightarrow> byte list \<Rightarrow> CrPipe \<Rightarrow> 'os world \<Rightarrow> 'os outcome" where
  "SendData cfg os data p w =
     (if \<not> isConnected p then (Returned, Some p, w)
      else if \<not> NDEBUG cfg \<and> \<not> length data \<le> M cfg then (Aborted, Some p, w)
      else
        let numBytesSending = min (length data) (M cfg);
            p1 = p\<lparr>writeBuffer :=
                     take numBytesSending data @ drop numBytesSending (writeBuffer p)\<rparr>;
            (a, w1) = api os (WriteFileEx (pipeHandle p1)
                        (take (unat (of_nat numBytesSending :: dword)) (writeBuffer p1))) w
        in if ret a = 0 then Disconnect os p1 w1 else (Returned, Some p1, w1))"

text \<open>
  \<open>CrPipe::OnReadCompleted\<close>. The callbacks get \<open>readBuffer_.data()\<close> and
  \<open>numBytesRead\<close>: the first \<open>numBytesRead\<close> bytes of the read buffer.
\<close>

definition OnReadCompleted ::
  "'os os \<Rightarrow> 'os CrPipeCallbacks \<Rightarrow> dword \<Rightarrow> dword \<Rightarrow> CrPipe \<Rightarrow> 'os world \<Rightarrow> 'os outcome" where
  "OnReadCompleted os callbacks e numBytesRead p w =
     (if e \<noteq> ERROR_SUCCESS then Disconnect os p w
      else
        let (a, w1) = api os (GetOverlappedResult (pipeHandle p)) w;
            haveOverflow = (lastError w1 = ERROR_MORE_DATA);
            received = take (unat numBytesRead) (readBuffer p)
        in if haveOverflow
           then
             let w2 = set_last_error os ERROR_SUCCESS w1
             in OnPartialDataReceived callbacks p received
                  (notify (PartialDataReceived received) w2)
           else OnDataReceived callbacks p received (notify (DataReceived received) w1))"

text \<open>\<open>CrPipe::OnWriteCompleted\<close>.\<close>

definition OnWriteCompleted ::
  "'os os \<Rightarrow> 'os CrPipeCallbacks \<Rightarrow> dword \<Rightarrow> dword \<Rightarrow> CrPipe \<Rightarrow> 'os world \<Rightarrow> 'os outcome" where
  "OnWriteCompleted os callbacks e numBytesWritten p w =
     (if e \<noteq> ERROR_SUCCESS then Disconnect os p w
      else OnDataSent callbacks p (notify DataSent w))"

text \<open>
  The static completion routines \<open>ReadCompleted\<close> and \<open>WriteCompleted\<close>: they
  find the pipe through \<open>self\<close> of the \<open>PipeInfo\<close>, assert that it is not null,
  and do nothing if it is.
\<close>

definition ReadCompleted ::
  "config \<Rightarrow> 'os os \<Rightarrow> 'os CrPipeCallbacks \<Rightarrow> dword \<Rightarrow> dword \<Rightarrow> CrPipe \<Rightarrow> 'os world
     \<Rightarrow> 'os outcome" where
  "ReadCompleted cfg os callbacks e numBytesRead p w =
     (if info_self p then OnReadCompleted os callbacks e numBytesRead p w
      else if NDEBUG cfg then (Returned, Some p, w)
      else (Aborted, Some p, w))"

definition WriteCompleted ::
  "config \<Rightarrow> 'os os \<Rightarrow> 'os CrPipeCallbacks \<Rightarrow> dword \<Rightarrow> dword \<Rightarrow> CrPipe \<Rightarrow> 'os world
     \<Rightarrow> 'os outcome" where
  "WriteCompleted cfg os callbacks e numBytesWritten p w =
     (if info_self p then OnWriteCompleted os callbacks e numBytesWritten p w
      else if NDEBUG cfg then (Returned, Some p, w)
      else (Aborted, Some p, w))"

text \<open>
  \<open>CrPipe::Connect\<close>: \<open>info_.Set\<close>, \<open>CreateNamedPipeA\<close> with buffer sizes
  \<open>N\<close> and \<open>N\<close>, \<open>ConnectNamedPipe\<close>, and the switch on the last error.
\<close>

definition Connect ::
  "config \<Rightarrow> 'os os \<Rightarrow> string \<Rightarrow> handle \<Rightarrow> CrPipe \<Rightarrow> 'os world \<Rightarrow> 'os outcome" where
  "Connect cfg os name connectedEvent p w =
     (let p1 = p\<lparr>info_hEvent := connectedEvent, info_self := True\<rparr>;
          (a, w1) = api os (CreateNamedPipeA name (of_nat (N cfg)) (of_nat (N cfg))) w;
          p2 = p1\<lparr>pipeHandle := ret a\<rparr>
      in if pipeHandle p2 = INVALID_HANDLE_VALUE
           then (Threw (Error ''Win API CreateNamedPipe failed.'' (Some (lastError w1))),
                 Some p2, w1)
         else
           let (b, w2) = api os (ConnectNamedPipe (pipeHandle p2)) w1 in
           if lastError w2 = ERROR_IO_PENDING
             then (Returned, Some (p2\<lparr>isConnectionPending := True\<rparr>), w2)
           else if lastError w2 = ERROR_PIPE_CONNECTED
             then
               let (c, w3) = api os (SetEvent connectedEvent) w2 in
               if ret c = 0
                 then (Threw (Error ''Win API SetEvent failed.'' (Some (lastError w3))),
                       Some p2, w3)
               else (Returned, Some p2, w3)
           else (Threw (Error ''Win API ConnectNamedPipe failed.'' (Some (lastError w2))),
                 Some p2, w2))"

text \<open>\<open>CrPipe::OnConnected\<close>.\<close>

definition OnConnected ::
  "config \<Rightarrow> 'os os \<Rightarrow> 'os CrPipeCallbacks \<Rightarrow> CrPipe \<Rightarrow> 'os world \<Rightarrow> 'os outcome" where
  "OnConnected cfg os callbacks p w =
     (if isConnectionPending p
      then
        let (a, w1) = api os (GetOverlappedResult (pipeHandle p)) w in
        if \<not> NDEBUG cfg \<and> ret a = 0 then (Aborted, Some p, w1)
        else
          let p1 = p\<lparr>isConnectionPending := False, isConnected := True\<rparr>
          in OnPipeConnected callbacks p1 (notify PipeConnected w1)
      else
        let p1 = p\<lparr>isConnected := True\<rparr>
        in OnPipeConnected callbacks p1 (notify PipeConnected w))"

text \<open>
  The default implementations of \<open>CrPipeCallbacks\<close>: listen after the connection,
  after partial data and after data was sent; do nothing with received data.
\<close>

definition default_callbacks :: "config \<Rightarrow> 'os os \<Rightarrow> 'os CrPipeCallbacks" where
  "default_callbacks cfg os =
     \<lparr>OnPipeConnected = (\<lambda>p w. ListenForData cfg os p w),
      OnDataReceived = (\<lambda>p received w. (Returned, Some p, w)),
      OnPartialDataReceived = (\<lambda>p received w. ListenForData cfg os p w),
      OnDataSent = (\<lambda>p w. ListenForData cfg os p w)\<rparr>"




subsection \<open>Completions in the alertable wait\<close>

text \<open>
  While the server's thread waits in \<open>WaitForSingleObjectEx\<close> (alertable), the
  system runs the completion routine of an operation that has finished. It does so
  once for an operation it accepted: a completion for which no such operation is in
  flight does not occur and changes nothing. For a read the system has put the bytes
  into the read buffer before the routine runs.
\<close>

definition matches :: "completion \<Rightarrow> operation \<Rightarrow> bool" where
  "matches c op =
     (case (c, op) of
        (ReadDone e received, ReadOp n) \<Rightarrow> length received \<le> unat n
      | (WriteDone e n, WriteOp bs) \<Rightarrow> unat n \<le> length bs
      | _ \<Rightarrow> False)"

definition complete ::
  "config \<Rightarrow> 'os os \<Rightarrow> 'os CrPipeCallbacks \<Rightarrow> completion \<Rightarrow> CrPipe \<Rightarrow> 'os world
     \<Rightarrow> 'os outcome" where
  "complete cfg os callbacks c p w =
     (case find (matches c) (inflight w) of
        None \<Rightarrow> (Returned, Some p, w)
      | Some op \<Rightarrow>
          let w1 = w\<lparr>inflight := remove1 op (inflight w)\<rparr> in
          (case c of
             ReadDone e received \<Rightarrow>
               ReadCompleted cfg os callbacks e (of_nat (length received))
                 (p\<lparr>readBuffer := received @ drop (length received) (readBuffer p)\<rparr>) w1
           | WriteDone e n \<Rightarrow> WriteCompleted cfg os callbacks e n p w1))"

text \<open>
  The completions that the system delivers to one pipe, one after the other, as long
  as the pipe lives and the system has one to deliver. The number bounds how many
  are looked at.
\<close>

type_synonym 'os deliver = "'os \<Rightarrow> (completion \<times> 'os) option"

fun pump ::
  "config \<Rightarrow> 'os os \<Rightarrow> 'os deliver \<Rightarrow> 'os CrPipeCallbacks \<Rightarrow> nat \<Rightarrow> CrPipe \<Rightarrow> 'os world
     \<Rightarrow> 'os outcome" where
  "pump cfg os deliver callbacks 0 p w = (Returned, Some p, w)"
| "pump cfg os deliver callbacks (Suc k) p w =
     (case deliver (os_state w) of
        None \<Rightarrow> (Returned, Some p, w)
      | Some (c, s) \<Rightarrow>
          (case complete cfg os callbacks c p (w\<lparr>os_state := s\<rparr>) of
             (Returned, Some p1, w1) \<Rightarrow> pump cfg os deliver callbacks k p1 w1
           | r \<Rightarrow> r))"

text \<open>
  The life of one pipe in \<open>CrPipeServer::Run\<close>: \<open>Connect\<close>, then
  \<open>OnConnected\<close> when the wait reports the shared event, then completions.
\<close>

definition serve ::
  "config \<Rightarrow> 'os os \<Rightarrow> 'os deliver \<Rightarrow> 'os CrPipeCallbacks \<Rightarrow> string \<Rightarrow> handle \<Rightarrow> nat
     \<Rightarrow> CrPipe \<Rightarrow> 'os world \<Rightarrow> 'os outcome" where
  "serve cfg os deliver callbacks name connectedEvent k p w =
     (case Connect cfg os name connectedEvent p w of
        (Returned, Some p1, w1) \<Rightarrow>
          (case OnConnected cfg os callbacks p1 w1 of
             (Returned, Some p2, w2) \<Rightarrow> pump cfg os deliver callbacks k p2 w2
           | r \<Rightarrow> r)
      | r \<Rightarrow> r)"

text \<open>The notifications in a log, and the world an outcome ends in.\<close>

definition notifications :: "event list \<Rightarrow> notification list" where
  "notifications tr = concat (map (\<lambda>e. case e of Notify n \<Rightarrow> [n] | _ \<Rightarrow> []) tr)"

definition world_of :: "'os outcome \<Rightarrow> 'os world" where
  "world_of r = snd (snd r)"

subsection \<open>A pipe in message mode\<close>

text \<open>
  Modelled from the spec: the operating system's named pipe in message mode is not
  part of the repository. The spec describes it: each write is one message; a read
  with a buffer smaller than what is left of the message gets as many bytes as the
  buffer holds, and the system reports the "more data" condition for it; the next
  read continues in the same message. Here \<open>inbox\<close> is what is left of the message
  a client has written, \<open>armed\<close> the size of the read the server has asked for,
  \<open>rest_left\<close> whether the read that completed last left a rest. Waiting for a
  client starts as a pending operation. A call that succeeds leaves the thread's
  last error alone.
\<close>

record msgpipe =
  inbox :: "byte list"
  armed :: "dword option"
  rest_left :: bool

definition msgpipe_os :: "msgpipe os" where
  "msgpipe_os c s =
     (case c of
        ReadFileEx h n \<Rightarrow> (\<lparr>ret = 1, err = None\<rparr>, s\<lparr>armed := Some n\<rparr>)
      | ConnectNamedPipe h \<Rightarrow> (\<lparr>ret = 0, err = Some ERROR_IO_PENDING\<rparr>, s)
      | GetOverlappedResult h \<Rightarrow>
          (if rest_left s then (\<lparr>ret = 0, err = Some ERROR_MORE_DATA\<rparr>, s)
           else (\<lparr>ret = 1, err = None\<rparr>, s))
      | _ \<Rightarrow> (\<lparr>ret = 1, err = None\<rparr>, s))"

definition msgpipe_deliver :: "msgpipe deliver" where
  "msgpipe_deliver s =
     (case armed s of
        None \<Rightarrow> None
      | Some n \<Rightarrow>
          if inbox s = [] then None
          else Some (ReadDone ERROR_SUCCESS (take (unat n) (inbox s)),
                     s\<lparr>inbox := drop (unat n) (inbox s), armed := None,
                       rest_left := (unat n < length (inbox s))\<rparr>))"

section \<open>The client-side pipe (pipes.h, ClientPipe)\<close>

record ClientPipe =
  clientHandle :: handle
  clientReadBuffer :: "byte list"

text \<open>\<open>ClientPipe::ConnectPipeImmediately\<close>.\<close>

definition ConnectPipeImmediately ::
  "'os os \<Rightarrow> string \<Rightarrow> ClientPipe \<Rightarrow> 'os world \<Rightarrow> (error + bool) \<times> ClientPipe \<times> 'os world" where
  "ConnectPipeImmediately os pipeName c w =
     (let (a, w1) = api os (CreateFile pipeName) w;
          c1 = c\<lparr>clientHandle := ret a\<rparr>
      in if clientHandle c1 = INVALID_HANDLE_VALUE \<and> lastError w1 \<noteq> ERROR_PIPE_BUSY
           then (Inl (Error ''Failed to open client-side pipe.'' (Some (lastError w1))), c1, w1)
         else if handle_valid (clientHandle c1)
           then
             let (b, w2) = api os (SetNamedPipeHandleState (clientHandle c1)) w1 in
             if ret b = 0
               then (Inl (Error ''Failed to set mode of client-side pipe.''
                            (Some (lastError w2))), c1, w2)
             else (Inr (handle_valid (clientHandle c1)), c1, w2)
         else (Inr (handle_valid (clientHandle c1)), c1, w1))"

text \<open>
  \<open>ClientPipe::WaitForPipe\<close>. The interval is a \<open>size_t\<close>, cast to a
  \<open>DWORD\<close> for \<open>WaitNamedPipe\<close>.
\<close>

definition WaitForPipe ::
  "'os os \<Rightarrow> string \<Rightarrow> size_t \<Rightarrow> 'os world \<Rightarrow> (error + bool) \<times> 'os world" where
  "WaitForPipe os pipeName waitIntervalMs w =
     (let (a, w1) = api os (WaitNamedPipe pipeName (ucast waitIntervalMs)) w in
      if ret a \<noteq> 0 then (Inr True, w1)
      else if lastError w1 \<noteq> ERROR_SEM_TIMEOUT
        then (Inl (Error ''Waiting for pipe failed.'' (Some (lastError w1))), w1)
      else (Inr False, w1))"

text \<open>\<open>ClientPipe::Connect\<close>.\<close>

definition ClientPipe_Connect ::
  "'os os \<Rightarrow> string \<Rightarrow> size_t \<Rightarrow> ClientPipe \<Rightarrow> 'os world
     \<Rightarrow> (error + bool) \<times> ClientPipe \<times> 'os world" where
  "ClientPipe_Connect os pipeName waitIntervalMs c w =
     (case ConnectPipeImmediately os pipeName c w of
        (Inl e, c1, w1) \<Rightarrow> (Inl e, c1, w1)
      | (Inr True, c1, w1) \<Rightarrow> (Inr True, c1, w1)
      | (Inr False, c1, w1) \<Rightarrow>
          (case WaitForPipe os pipeName waitIntervalMs w1 of
             (Inl e, w2) \<Rightarrow> (Inl e, c1, w2)
           | (Inr True, w2) \<Rightarrow> ConnectPipeImmediately os pipeName c1 w2
           | (Inr False, w2) \<Rightarrow> (Inr False, c1, w2)))"

text \<open>
  A system on which no pipe of the given name exists. As the documentation of the
  Windows API has it, \<open>CreateFile\<close> then fails with \<open>ERROR_FILE_NOT_FOUND\<close>,
  and so does \<open>WaitNamedPipe\<close>, at once.
\<close>

definition no_pipe_os :: "unit os" where
  "no_pipe_os c s =
     (case c of
        CreateFile pipeName \<Rightarrow>
          (\<lparr>ret = INVALID_HANDLE_VALUE, err = Some ERROR_FILE_NOT_FOUND\<rparr>, s)
      | WaitNamedPipe pipeName t \<Rightarrow> (\<lparr>ret = 0, err = Some ERROR_FILE_NOT_FOUND\<rparr>, s)
      | _ \<Rightarrow> (\<lparr>ret = 1, err = None\<rparr>, s))"

section \<open>Concrete pipes and systems\<close>

text \<open>
  Pipes, worlds and systems at which the theorems below are instantiated: a connected
  pipe with handle 5, a pipe with a read buffer of two bytes, a pipe as its
  constructor leaves it, with buffers of two and of eight bytes; a world in which nothing has happened, one in which a read
  of two bytes is armed and a client has written five bytes, one in which the five
  bytes wait for the first read; a system whose \<open>DisconnectNamedPipe\<close> fails
  with error 6 (\<open>ERROR_INVALID_HANDLE\<close>), one that also rejects every write with
  error 232 (\<open>ERROR_NO_DATA\<close>, the pipe is being closed), and one on which every
  instance of the pipe stays busy until the wait times out.
\<close>

definition test_pipe :: CrPipe where
  "test_pipe = \<lparr>info_hEvent = 7, info_self = True, pipeHandle = 5, readBuffer = [0, 0, 0, 0],
     writeBuffer = [0, 0], isConnectionPending = False, isConnected = True\<rparr>"

definition small_pipe :: CrPipe where
  "small_pipe = \<lparr>info_hEvent = 7, info_self = True, pipeHandle = 5, readBuffer = [0, 0],
     writeBuffer = [0, 0], isConnectionPending = False, isConnected = True\<rparr>"



definition quiet_world :: "msgpipe world" where
  "quiet_world = \<lparr>os_state = \<lparr>inbox = [], armed = None, rest_left = False\<rparr>,
     lastError = 0, trace = [], inflight = []\<rparr>"

definition listening_world :: "msgpipe world" where
  "listening_world = \<lparr>os_state = \<lparr>inbox = [1, 2, 3, 4, 5], armed = Some 2, rest_left = False\<rparr>,
     lastError = 0, trace = [], inflight = [ReadOp 2]\<rparr>"


definition unit_world :: "unit world" where
  "unit_world = \<lparr>os_state = (), lastError = 0, trace = [], inflight = []\<rparr>"

definition broken_pipe_os :: "unit os" where
  "broken_pipe_os c s =
     (case c of
        DisconnectNamedPipe h \<Rightarrow> (\<lparr>ret = 0, err = Some 6\<rparr>, s)
      | _ \<Rightarrow> (\<lparr>ret = 1, err = None\<rparr>, s))"

definition dead_pipe_os :: "unit os" where
  "dead_pipe_os c s =
     (case c of
        WriteFileEx h bs \<Rightarrow> (\<lparr>ret = 0, err = Some 232\<rparr>, s)
      | DisconnectNamedPipe h \<Rightarrow> (\<lparr>ret = 0, err = Some 6\<rparr>, s)
      | _ \<Rightarrow> (\<lparr>ret = 1, err = None\<rparr>, s))"

definition busy_pipe_os :: "unit os" where
  "busy_pipe_os c s =
     (case c of
        CreateFile pipeName \<Rightarrow> (\<lparr>ret = INVALID_HANDLE_VALUE, err = Some ERROR_PIPE_BUSY\<rparr>, s)
      | WaitNamedPipe pipeName t \<Rightarrow> (\<lparr>ret = 0, err = Some ERROR_SEM_TIMEOUT\<rparr>, s)
      | _ \<Rightarrow> (\<lparr>ret = 1, err = None\<rparr>, s))"

text \<open>The number of \<open>CreateFile\<close> calls in a log.\<close>

definition opens :: "event list \<Rightarrow> nat" where
  "opens tr = length (filter (\<lambda>e. case e of Api (CreateFile n) a \<Rightarrow> True | _ \<Rightarrow> False) tr)"

section \<open>Properties of the codec\<close>

declare c_str_at.simps [simp del]


lemma length_to_bytes [simp]: "length (to_bytes n w) = n"
  by (induction n arbitrary: w) simp_all




lemma sizeof_size_t [simp]: "sizeof TYPE(64 word) = 8"
  by (simp add: sizeof_def)

text \<open>Take, with the arithmetic read as natural numbers.\<close>

lemma Take_nat:
  assumes "length (buffer src) < 2 ^ 64" and "unat (pos src) \<le> length (buffer src)"
  shows "Take n src =
     (if n = 0 then (Inr Nullptr, src)
      else if length (buffer src) - unat (pos src) < unat n
        then (Inl (Error ''Data of requested size not available.'' None), src)
      else (Inr (Ptr (unat (pos src))), src\<lparr>pos := pos src + n\<rparr>))"
proof -
  have sz: "unat (of_nat (length (buffer src)) :: size_t) = length (buffer src)"
    using assms(1) by (simp add: unat_of_nat)
  have le: "pos src \<le> of_nat (length (buffer src))"
    using assms(2) sz by (simp add: word_le_nat_alt)
  have "unat (of_nat (length (buffer src)) - pos src) = length (buffer src) - unat (pos src)"
    using le sz by (simp add: unat_sub)
  then have "(of_nat (length (buffer src)) - pos src < n)
      = (length (buffer src) - unat (pos src) < unat n)"
    by (simp add: word_less_nat_alt)
  then show ?thesis
    by (simp add: Take_def)
qed

lemma unat_pos_add:
  assumes "length (buffer src) < 2 ^ 64" and "unat (pos src) \<le> length (buffer src)"
    and "unat n \<le> length (buffer src) - unat (pos src)"
  shows "unat (pos src + n) = unat (pos src) + unat n"
  using assms by (simp add: unat_add_lem [THEN iffD1])


lemma Take_invariant:
  assumes "length (buffer src) < 2 ^ 64" and "unat (pos src) \<le> length (buffer src)"
  shows "unat (pos (snd (Take n src))) \<le> length (buffer (snd (Take n src)))"
proof (cases "n = 0 \<or> length (buffer src) - unat (pos src) < unat n")
  case True
  then show ?thesis using assms by (auto simp add: Take_nat)
next
  case False
  then have "unat (pos src + n) = unat (pos src) + unat n"
    using unat_pos_add [OF assms, of n] by simp
  then show ?thesis using assms False by (simp add: Take_nat) arith
qed

text \<open>
  Claim C10. For an adapter over a vector (of fewer than \<open>2^64\<close> bytes) whose
  position is at most the vector's size: \<open>Take(0)\<close> returns the null pointer and
  changes nothing; a call that throws leaves the adapter as it was; a successful
  \<open>Take(n)\<close> with \<open>n > 0\<close> returns the pointer to the current position, the
  \<open>n\<close> bytes from there lie inside the vector, and the position advances by
  exactly \<open>n\<close> (without wrapping); after every call the position is again at most
  the vector's size.
\<close>

theorem Take_preserves_position_bound:
  assumes "length (buffer src) < 2 ^ 64" and "unat (pos src) \<le> length (buffer src)"
  shows "Take 0 src = (Inr Nullptr, src) \<and>
    (\<forall>e src'. Take n src = (Inl e, src') \<longrightarrow> src' = src) \<and>
    (\<forall>p src'. n \<noteq> 0 \<and> Take n src = (Inr p, src') \<longrightarrow>
        p = Ptr (unat (pos src)) \<and> unat (pos src) + unat n \<le> length (buffer src) \<and>
        buffer src' = buffer src \<and> pos src' = pos src + n \<and>
        unat (pos src') = unat (pos src) + unat n) \<and>
    unat (pos (snd (Take n src))) \<le> length (buffer (snd (Take n src)))"
proof (intro conjI allI impI)
  show "Take 0 src = (Inr Nullptr, src)"
    by (simp add: Take_def)
next
  fix e src' assume "Take n src = (Inl e, src')"
  then show "src' = src"
    by (simp add: Take_def split: if_splits)
next
  fix p src' assume a: "n \<noteq> 0 \<and> Take n src = (Inr p, src')"
  then have fit: "unat n \<le> length (buffer src) - unat (pos src)"
    and p: "p = Ptr (unat (pos src))" and s: "src' = src\<lparr>pos := pos src + n\<rparr>"
    using assms by (auto simp add: Take_nat split: if_splits)
  show "p = Ptr (unat (pos src))" by (fact p)
  show "unat (pos src) + unat n \<le> length (buffer src)"
    using fit assms(2) by arith
  show "buffer src' = buffer src" by (simp add: s)
  show "pos src' = pos src + n" by (simp add: s)
  show "unat (pos src') = unat (pos src) + unat n"
    using unat_pos_add [OF assms fit] by (simp add: s)
next
  show "unat (pos (snd (Take n src))) \<le> length (buffer (snd (Take n src)))"
    by (rule Take_invariant [OF assms])
qed

text \<open>Claim C10 at a three-byte vector read from position 1.\<close>

theorem Take_preserves_position_bound_witness:
  "Take 0 \<lparr>buffer = [1, 2, 3], pos = 1\<rparr> = (Inr Nullptr, \<lparr>buffer = [1, 2, 3], pos = 1\<rparr>) \<and>
   Take 2 \<lparr>buffer = [1, 2, 3], pos = 1\<rparr> = (Inr (Ptr 1), \<lparr>buffer = [1, 2, 3], pos = 3\<rparr>) \<and>
   Take 3 \<lparr>buffer = [1, 2, 3], pos = 1\<rparr>
     = (Inl (Error ''Data of requested size not available.'' None), \<lparr>buffer = [1, 2, 3], pos = 1\<rparr>) \<and>
   unat (pos (snd (Take 2 \<lparr>buffer = [1, 2, 3], pos = 1\<rparr>)))
     \<le> length (buffer (snd (Take 2 \<lparr>buffer = [1, 2, 3], pos = 1\<rparr>)))"
  using Take_preserves_position_bound [of "\<lparr>buffer = [1, 2, 3], pos = 1\<rparr>" 2]
  by (simp add: Take_def)


lemma deserialize_Inr_source:
  assumes "(deserialize src :: (fault + 'a::len word) \<times> VectorDeserializationBufferAdapter)
      = (Inr v, src1)"
  shows "src1 = snd (Take (of_nat (sizeof TYPE('a word))) src)"
  using assms by (auto simp add: deserialize_def split: prod.splits sum.splits)

subsection \<open>Where the check of Take holds and where it does not\<close>

text \<open>
  While the position is at most the size of the vector (the invariant of claim C10),
  so that the vector has \<open>pos + k\<close> bytes, every request for more than \<open>k\<close>
  bytes is answered with the error "Data of requested size not available.", which is
  the only error \<open>Take\<close> throws, and a pointer returned for a request of
  \<open>m\<close> bytes has these \<open>m\<close> bytes inside the vector. Then deserializing a
  value of more than \<open>k\<close> bytes throws that error, and so does deserializing a
  string when the number in its length field is greater than the number of bytes
  that remain after it.
\<close>

lemma Take_underflow:
  assumes "length (buffer src) < 2 ^ 64"
    and "length (buffer src) = unat (pos src) + k"
    and "k < unat n"
  shows "Take n src = (Inl (Error ''Data of requested size not available.'' None), src) \<and>
    (\<forall>m off src'. Take m src = (Inr (Ptr off), src') \<longrightarrow> off + unat m \<le> length (buffer src)) \<and>
    (\<forall>m e src'. Take m src = (Inl e, src') \<longrightarrow>
        e = Error ''Data of requested size not available.'' None) \<and>
    (k < sizeof TYPE('a::len word) \<and> sizeof TYPE('a word) < 2 ^ 64 \<longrightarrow>
        (deserialize src :: (fault + 'a word) \<times> VectorDeserializationBufferAdapter)
          = (Inl (Thrown (Error ''Data of requested size not available.'' None)), src)) \<and>
    (\<forall>len src1.
        (deserialize src :: (fault + size_t) \<times> VectorDeserializationBufferAdapter) = (Inr len, src1)
          \<and> length (buffer src1) - unat (pos src1) < unat len \<longrightarrow>
        (deserialize_string src :: (fault + 'b::len word list) \<times> VectorDeserializationBufferAdapter)
          = (Inl (Thrown (Error ''Data of requested size not available.'' None)), src1))"
proof -
  have inv: "unat (pos src) \<le> length (buffer src)"
    using assms(2) by simp
  have k: "length (buffer src) - unat (pos src) = k"
    using assms(2) by simp
  have fail: "Take m src = (Inl (Error ''Data of requested size not available.'' None), src)"
    if "k < unat m" for m
  proof -
    from that have "m \<noteq> 0" by auto
    with that show ?thesis
      by (simp add: Take_nat [OF assms(1) inv] k)
  qed
  have c1: "Take n src = (Inl (Error ''Data of requested size not available.'' None), src)"
    by (rule fail [OF assms(3)])
  have c2: "off + unat m \<le> length (buffer src)"
    if "Take m src = (Inr (Ptr off), src')" for m off src'
    using that inv by (auto simp add: Take_nat [OF assms(1) inv] split: if_splits)
  have c3: "e = Error ''Data of requested size not available.'' None"
    if "Take m src = (Inl e, src')" for m e src'
    using that by (auto simp add: Take_def split: if_splits)
  have c4: "(deserialize src :: (fault + 'a word) \<times> VectorDeserializationBufferAdapter)
          = (Inl (Thrown (Error ''Data of requested size not available.'' None)), src)"
    if "k < sizeof TYPE('a word) \<and> sizeof TYPE('a word) < 2 ^ 64"
  proof -
    have "unat (of_nat (sizeof TYPE('a word)) :: size_t) = sizeof TYPE('a word)"
      using that by (simp add: unat_of_nat)
    with that have "k < unat (of_nat (sizeof TYPE('a word)) :: size_t)" by simp
    from fail [OF this] show ?thesis
      by (simp add: deserialize_def)
  qed
  have c5: "(deserialize_string src :: (fault + 'b word list) \<times> VectorDeserializationBufferAdapter)
          = (Inl (Thrown (Error ''Data of requested size not available.'' None)), src1)"
    if a: "(deserialize src :: (fault + size_t) \<times> VectorDeserializationBufferAdapter) = (Inr len, src1)
          \<and> length (buffer src1) - unat (pos src1) < unat len" for len src1
  proof -
    from a have src1: "src1 = snd (Take (of_nat (sizeof TYPE(64 word))) src)"
      using deserialize_Inr_source by blast
    have b1: "buffer src1 = buffer src"
      unfolding src1 by (simp add: Take_def)
    have i1: "unat (pos src1) \<le> length (buffer src1)"
      unfolding src1 by (rule Take_invariant [OF assms(1) inv])
    have l1: "length (buffer src1) < 2 ^ 64"
      using assms(1) b1 by simp
    from a have "len \<noteq> 0" by auto
    with a have "Take len src1
        = (Inl (Error ''Data of requested size not available.'' None), src1)"
      by (simp add: Take_nat [OF l1 i1])
    with a show ?thesis
      by (simp add: deserialize_string_def)
  qed
  from c1 c2 c3 c4 c5 show ?thesis by blast
qed


text \<open>
  At a ten-byte vector: a request for 11 bytes, a 16-byte value, and a string whose
  length field says 5 where 2 bytes remain.
\<close>

lemma Take_underflow_example:
  "Take 11 \<lparr>buffer = [5, 0, 0, 0, 0, 0, 0, 0, 1, 2], pos = 0\<rparr>
     = (Inl (Error ''Data of requested size not available.'' None),
        \<lparr>buffer = [5, 0, 0, 0, 0, 0, 0, 0, 1, 2], pos = 0\<rparr>) \<and>
   (deserialize \<lparr>buffer = [5, 0, 0, 0, 0, 0, 0, 0, 1, 2], pos = 0\<rparr>
      :: (fault + 128 word) \<times> VectorDeserializationBufferAdapter)
     = (Inl (Thrown (Error ''Data of requested size not available.'' None)),
        \<lparr>buffer = [5, 0, 0, 0, 0, 0, 0, 0, 1, 2], pos = 0\<rparr>) \<and>
   (deserialize_string \<lparr>buffer = [5, 0, 0, 0, 0, 0, 0, 0, 1, 2], pos = 0\<rparr>
      :: (fault + byte list) \<times> VectorDeserializationBufferAdapter)
     = (Inl (Thrown (Error ''Data of requested size not available.'' None)),
        \<lparr>buffer = [5, 0, 0, 0, 0, 0, 0, 0, 1, 2], pos = 8\<rparr>)"
proof -
  let ?src = "\<lparr>buffer = [5, 0, 0, 0, 0, 0, 0, 0, 1, 2], pos = 0\<rparr>"
  let ?src1 = "\<lparr>buffer = [5, 0, 0, 0, 0, 0, 0, 0, 1, 2], pos = 8\<rparr>"
  have h1: "length (buffer ?src) < 2 ^ 64" by simp
  have h2: "length (buffer ?src) = unat (pos ?src) + 10" by simp
  have h3: "10 < unat (11 :: size_t)" by simp
  have d: "(deserialize ?src :: (fault + size_t) \<times> VectorDeserializationBufferAdapter)
      = (Inr 5, ?src1)"
    by (simp add: deserialize_def Take_def)
  have s: "(10::nat) < sizeof TYPE(128 word) \<and> sizeof TYPE(128 word) < 2 ^ 64"
    by (simp add: sizeof_def)
  have r: "length (buffer ?src1) - unat (pos ?src1) < unat (5 :: size_t)" by simp
  from Take_underflow [OF h1 h2 h3, where 'a = 128 and 'b = 8] d s r
  show ?thesis by blast
qed

text \<open>
  Claim C4 does not hold of the code. It says that \<open>Take\<close> fails whenever more
  bytes are requested than remain and never returns a pointer to memory outside the
  vector, and that deserializing a value whose declared length exceeds the remaining
  bytes fails with that error instead of reading out of bounds. The code misses two
  cases. First, \<open>buffer_.size() - pos_\<close> is a subtraction of unsigned numbers:
  for an adapter whose position is behind the end of its vector (the two-argument
  constructor takes any position, and the vector is held by reference and may
  shrink) it wraps around, the check passes, and \<open>Take(1)\<close> on a vector of one
  byte at position 2 returns the pointer to offset 2 and moves the position to 3.
  Second, the string overload of \<open>deserialize\<close> passes the number of character
  units to \<open>Take\<close>, which counts bytes, where \<open>serialize\<close> wrote
  \<open>len * sizeof(TChar)\<close> bytes: a string of 16-bit units that declares 2 units
  (4 bytes) with 2 bytes left passes the check, and building the string reads past
  the end of the vector.
\<close>

theorem underflow_check_misses:
  "Take 1 \<lparr>buffer = [7], pos = 2\<rparr> = (Inr (Ptr 2), \<lparr>buffer = [7], pos = 3\<rparr>) \<and>
   (deserialize_string \<lparr>buffer = [2, 0, 0, 0, 0, 0, 0, 0, 65, 0], pos = 0\<rparr>
      :: (fault + 16 word list) \<times> VectorDeserializationBufferAdapter)
     = (Inl OutOfBoundsRead, \<lparr>buffer = [2, 0, 0, 0, 0, 0, 0, 0, 65, 0], pos = 10\<rparr>)"
  by (simp add: deserialize_string_def deserialize_def Take_def sizeof_def c_str_at.simps
      Let_def)








lemma to_bytes_numeral [simp]:
  "to_bytes (numeral k) w = ucast w # to_bytes (pred_numeral k) (drop_bit 8 w)"
  by (simp add: numeral_eq_Suc)



section \<open>Properties of the server-side pipe\<close>

text \<open>
  Claim C8. On a pipe whose \<open>isConnected_\<close> is false, \<open>ListenForData\<close> and
  \<open>SendData\<close> return at once: the pipe with all its fields is as before, and so
  is the world, that is, no call to the system was made, no operation was issued and
  the pipe was not disconnected.
\<close>

theorem not_connected_noop:
  "\<not> isConnected p \<Longrightarrow>
     ListenForData cfg os p w = (Returned, Some p, w) \<and>
     SendData cfg os data p w = (Returned, Some p, w)"
  by (simp add: ListenForData_def SendData_def)

text \<open>Claim C8 at a pipe that is not connected, in a debug build, with three bytes to send.\<close>

theorem not_connected_noop_witness:
  "\<not> isConnected (test_pipe\<lparr>isConnected := False\<rparr>) \<and>
   ListenForData \<lparr>N = 4, M = 2, NDEBUG = False\<rparr> no_pipe_os (test_pipe\<lparr>isConnected := False\<rparr>)
       \<lparr>os_state = (), lastError = 0, trace = [], inflight = []\<rparr>
     = (Returned, Some (test_pipe\<lparr>isConnected := False\<rparr>),
        \<lparr>os_state = (), lastError = 0, trace = [], inflight = []\<rparr>) \<and>
   SendData \<lparr>N = 4, M = 2, NDEBUG = False\<rparr> no_pipe_os [1, 2, 3] (test_pipe\<lparr>isConnected := False\<rparr>)
       \<lparr>os_state = (), lastError = 0, trace = [], inflight = []\<rparr>
     = (Returned, Some (test_pipe\<lparr>isConnected := False\<rparr>),
        \<lparr>os_state = (), lastError = 0, trace = [], inflight = []\<rparr>)"
proof -
  have h: "\<not> isConnected (test_pipe\<lparr>isConnected := False\<rparr>)" by simp
  from not_connected_noop [OF h] h show ?thesis by blast
qed

lemma unat_dword_of_nat: "n < 2 ^ 32 \<Longrightarrow> unat (of_nat n :: dword) = n"
  by (simp add: unat_of_nat)

lemma Disconnect_not_Aborted: "fst (Disconnect os p w) \<noteq> Aborted"
  by (simp add: Disconnect_def split: prod.splits)

text \<open>
  Claim C5, amended. \<open>SendData\<close> is called on a connected pipe whose capacity
  \<open>M\<close> is below \<open>2^32\<close>. When the data has at most \<open>M\<close> bytes, in
  any build, or more than \<open>M\<close> bytes in a build with \<open>NDEBUG\<close>, exactly one
  \<open>WriteFileEx\<close> is handed to the system, with all the data in the first case
  and with its first \<open>M\<close> bytes in the second; these bytes are then at the
  start of the write buffer, and no assertion stops the program. If the system
  accepts the write, the call returns; if it rejects it, the call ends as
  \<open>Disconnect\<close> does, so that an error is raised exactly when the write is
  rejected and \<open>DisconnectNamedPipe\<close> fails after it. When the data has more than \<open>M\<close> bytes in a build
  without \<open>NDEBUG\<close>, the assertion stops the program, and neither the pipe nor
  the world has changed: nothing was written.
\<close>

theorem SendData_truncates:
  assumes "isConnected p" and "M cfg < 2 ^ 32"
    and "api os (WriteFileEx (pipeHandle p) (take (M cfg) data)) w = (a, w1)"
  shows "(NDEBUG cfg \<or> length data \<le> M cfg \<longrightarrow>
      SendData cfg os data p w =
        (if ret a = 0
           then Disconnect os (p\<lparr>writeBuffer := take (M cfg) data
                                    @ drop (min (length data) (M cfg)) (writeBuffer p)\<rparr>) w1
         else (Returned,
               Some (p\<lparr>writeBuffer := take (M cfg) data
                          @ drop (min (length data) (M cfg)) (writeBuffer p)\<rparr>), w1)) \<and>
      fst (SendData cfg os data p w) \<noteq> Aborted \<and>
      ((\<exists>e. fst (SendData cfg os data p w) = Threw e) \<longleftrightarrow>
         ret a = 0 \<and> ret (fst (api os (DisconnectNamedPipe (pipeHandle p)) w1)) = 0)) \<and>
    (\<not> NDEBUG cfg \<and> M cfg < length data \<longrightarrow>
      SendData cfg os data p w = (Aborted, Some p, w)) \<and>
    trace w1 = trace w @ [Api (WriteFileEx (pipeHandle p) (take (M cfg) data)) a] \<and>
    (M cfg < length data \<longrightarrow> length (take (M cfg) data) = M cfg) \<and>
    (length data \<le> M cfg \<longrightarrow> take (M cfg) data = data)"
proof -
  let ?n = "min (length data) (M cfg)"
  let ?p1 = "p\<lparr>writeBuffer := take (M cfg) data
                @ drop (min (length data) (M cfg)) (writeBuffer p)\<rparr>"
  have n: "unat (of_nat ?n :: dword) = ?n"
    using assms(2) by (intro unat_dword_of_nat) simp
  have t: "take ?n data = take (M cfg) data"
    by (simp add: min_def)
  have eq: "SendData cfg os data p w =
      (if ret a = 0 then Disconnect os ?p1 w1 else (Returned, Some ?p1, w1))"
    if "NDEBUG cfg \<or> length data \<le> M cfg"
    using that assms(1,3) by (auto simp add: SendData_def Let_def n t)
  have na: "fst (SendData cfg os data p w) \<noteq> Aborted"
    if "NDEBUG cfg \<or> length data \<le> M cfg"
    unfolding eq [OF that] by (simp add: Disconnect_not_Aborted)
  have th: "(\<exists>e. fst (SendData cfg os data p w) = Threw e) \<longleftrightarrow>
      ret a = 0 \<and> ret (fst (api os (DisconnectNamedPipe (pipeHandle p)) w1)) = 0"
    if "NDEBUG cfg \<or> length data \<le> M cfg"
    unfolding eq [OF that] by (auto simp add: Disconnect_def split: prod.splits)
  have ab: "SendData cfg os data p w = (Aborted, Some p, w)"
    if "\<not> NDEBUG cfg \<and> M cfg < length data"
    using that assms(1) by (simp add: SendData_def)
  have tr: "trace w1 = trace w @ [Api (WriteFileEx (pipeHandle p) (take (M cfg) data)) a]"
    using assms(3) by (auto simp add: api_def split: prod.splits)
  from eq na th ab tr show ?thesis by simp
qed

text \<open>
  Claim C5, amended, at \<open>M = 2\<close>: three bytes to send in a build with
  \<open>NDEBUG\<close>, and two bytes to send in a build without it.
\<close>

theorem SendData_truncates_witness:
  "SendData \<lparr>N = 4, M = 2, NDEBUG = True\<rparr> msgpipe_os [1, 2, 3] test_pipe quiet_world
     = (Returned, Some (test_pipe\<lparr>writeBuffer := [1, 2]\<rparr>),
        quiet_world\<lparr>trace := [Api (WriteFileEx 5 [1, 2]) \<lparr>ret = 1, err = None\<rparr>],
                    inflight := [WriteOp [1, 2]]\<rparr>) \<and>
   SendData \<lparr>N = 4, M = 2, NDEBUG = False\<rparr> msgpipe_os [8, 9] test_pipe quiet_world
     = (Returned, Some (test_pipe\<lparr>writeBuffer := [8, 9]\<rparr>),
        quiet_world\<lparr>trace := [Api (WriteFileEx 5 [8, 9]) \<lparr>ret = 1, err = None\<rparr>],
                    inflight := [WriteOp [8, 9]]\<rparr>)"
proof
  let ?cfg = "\<lparr>N = 4, M = 2, NDEBUG = True\<rparr>"
  let ?w1 = "quiet_world\<lparr>trace := [Api (WriteFileEx 5 [1, 2]) \<lparr>ret = 1, err = None\<rparr>],
                    inflight := [WriteOp [1, 2]]\<rparr>"
  have h1: "isConnected test_pipe" by (simp add: test_pipe_def)
  have h3: "M ?cfg < 2 ^ 32" by simp
  have h4: "api msgpipe_os (WriteFileEx (pipeHandle test_pipe) (take (M ?cfg) [1, 2, 3])) quiet_world
      = (\<lparr>ret = 1, err = None\<rparr>, ?w1)"
    by (simp add: api_def msgpipe_os_def issued_def quiet_world_def test_pipe_def)
  have h2: "NDEBUG ?cfg \<or> length [1, 2, 3 :: byte] \<le> M ?cfg" by simp
  from SendData_truncates [OF h1 h3 h4] h2
  show "SendData ?cfg msgpipe_os [1, 2, 3] test_pipe quiet_world
     = (Returned, Some (test_pipe\<lparr>writeBuffer := [1, 2]\<rparr>), ?w1)"
    by (simp add: test_pipe_def)
next
  let ?cfg = "\<lparr>N = 4, M = 2, NDEBUG = False\<rparr>"
  let ?w1 = "quiet_world\<lparr>trace := [Api (WriteFileEx 5 [8, 9]) \<lparr>ret = 1, err = None\<rparr>],
                    inflight := [WriteOp [8, 9]]\<rparr>"
  have h1: "isConnected test_pipe" by (simp add: test_pipe_def)
  have h3: "M ?cfg < 2 ^ 32" by simp
  have h4: "api msgpipe_os (WriteFileEx (pipeHandle test_pipe) (take (M ?cfg) [8, 9])) quiet_world
      = (\<lparr>ret = 1, err = None\<rparr>, ?w1)"
    by (simp add: api_def msgpipe_os_def issued_def quiet_world_def test_pipe_def)
  have h2: "NDEBUG ?cfg \<or> length [8, 9 :: byte] \<le> M ?cfg" by simp
  from SendData_truncates [OF h1 h3 h4] h2
  show "SendData ?cfg msgpipe_os [8, 9] test_pipe quiet_world
     = (Returned, Some (test_pipe\<lparr>writeBuffer := [8, 9]\<rparr>), ?w1)"
    by (simp add: test_pipe_def)
qed

text \<open>
  Claim C5 as stated fails in a build without \<open>NDEBUG\<close>: with \<open>M = 2\<close> and
  three bytes to send, \<open>assert(dataSize <= M)\<close> stops the program before
  anything is written. And in a build with \<open>NDEBUG\<close> an error is raised when
  the system rejects the write and then fails to disconnect the pipe.
\<close>

theorem SendData_assertion_counterexample:
  "SendData \<lparr>N = 4, M = 2, NDEBUG = False\<rparr> msgpipe_os [1, 2, 3] test_pipe quiet_world
     = (Aborted, Some test_pipe, quiet_world) \<and>
   fst (SendData \<lparr>N = 4, M = 2, NDEBUG = True\<rparr> dead_pipe_os [1, 2, 3] test_pipe unit_world)
     = Threw (Error ''Win API DisconnectNamedPipe failed.'' (Some 6))"
  by (simp add: SendData_def Disconnect_def api_def dead_pipe_os_def issued_def
      test_pipe_def unit_world_def)

text \<open>
  Claim C6, amended. When a read or a write completes with an error code other than
  \<open>ERROR_SUCCESS\<close>, the pipe does what \<open>Disconnect\<close> does: if
  \<open>DisconnectNamedPipe\<close> succeeds the pipe deletes itself, and if it fails an
  \<open>Error\<close> is thrown and the pipe is still there. When a read completes without
  error, \<open>OnPartialDataReceived\<close> is called with the bytes read exactly when the
  last error after \<open>GetOverlappedResult\<close> is \<open>ERROR_MORE_DATA\<close> (the last
  error is then reset), and \<open>OnDataReceived\<close> otherwise. When a write completes
  without error, \<open>OnDataSent\<close> is called.
\<close>

theorem completion_dispatch:
  "(e \<noteq> ERROR_SUCCESS \<longrightarrow>
      OnReadCompleted os callbacks e n p w = Disconnect os p w \<and>
      OnWriteCompleted os callbacks e n p w = Disconnect os p w) \<and>
   (e = ERROR_SUCCESS \<and> lastError (snd (api os (GetOverlappedResult (pipeHandle p)) w))
        = ERROR_MORE_DATA \<longrightarrow>
      OnReadCompleted os callbacks e n p w =
        OnPartialDataReceived callbacks p (take (unat n) (readBuffer p))
          (notify (PartialDataReceived (take (unat n) (readBuffer p)))
             (set_last_error os ERROR_SUCCESS
                (snd (api os (GetOverlappedResult (pipeHandle p)) w))))) \<and>
   (e = ERROR_SUCCESS \<and> lastError (snd (api os (GetOverlappedResult (pipeHandle p)) w))
        \<noteq> ERROR_MORE_DATA \<longrightarrow>
      OnReadCompleted os callbacks e n p w =
        OnDataReceived callbacks p (take (unat n) (readBuffer p))
          (notify (DataReceived (take (unat n) (readBuffer p)))
             (snd (api os (GetOverlappedResult (pipeHandle p)) w)))) \<and>
   (e = ERROR_SUCCESS \<longrightarrow>
      OnWriteCompleted os callbacks e n p w = OnDataSent callbacks p (notify DataSent w)) \<and>
   (ret (fst (api os (DisconnectNamedPipe (pipeHandle p)) w)) \<noteq> 0 \<longrightarrow>
      fst (Disconnect os p w) = Returned \<and> fst (snd (Disconnect os p w)) = None) \<and>
   (ret (fst (api os (DisconnectNamedPipe (pipeHandle p)) w)) = 0 \<longrightarrow>
      Disconnect os p w =
        (Threw (Error ''Win API DisconnectNamedPipe failed.''
           (Some (lastError (snd (api os (DisconnectNamedPipe (pipeHandle p)) w))))),
         Some p, snd (api os (DisconnectNamedPipe (pipeHandle p)) w)))"
  by (simp add: OnReadCompleted_def OnWriteCompleted_def Disconnect_def Let_def
      split: prod.splits)

text \<open>
  Claim C6 as stated fails when the system refuses to disconnect: the read completed
  with error 109 (\<open>ERROR_BROKEN_PIPE\<close>), \<open>DisconnectNamedPipe\<close> fails, and
  the pipe throws and is not deleted.
\<close>

theorem completion_dispatch_counterexample:
  "OnReadCompleted broken_pipe_os
      (default_callbacks \<lparr>N = 4, M = 2, NDEBUG = True\<rparr> broken_pipe_os) 109 0 test_pipe unit_world
     = (Threw (Error ''Win API DisconnectNamedPipe failed.'' (Some 6)), Some test_pipe,
        unit_world\<lparr>lastError := 6,
          trace := [Api (DisconnectNamedPipe 5) \<lparr>ret = 0, err = Some 6\<rparr>]\<rparr>)"
  by (simp add: OnReadCompleted_def Disconnect_def api_def broken_pipe_os_def issued_def
      unit_world_def test_pipe_def ERROR_SUCCESS_def)

text \<open>
  Claim C6, amended, at a read that left a rest of its message (the default callback
  listens again) and at a write that completed with an error.
\<close>

theorem completion_dispatch_witness:
  "OnReadCompleted msgpipe_os (default_callbacks \<lparr>N = 4, M = 2, NDEBUG = True\<rparr> msgpipe_os)
      ERROR_SUCCESS 4 (test_pipe\<lparr>readBuffer := [1, 2, 3, 4]\<rparr>)
      (quiet_world\<lparr>os_state := \<lparr>inbox = [5], armed = None, rest_left = True\<rparr>\<rparr>)
     = ListenForData \<lparr>N = 4, M = 2, NDEBUG = True\<rparr> msgpipe_os
         (test_pipe\<lparr>readBuffer := [1, 2, 3, 4]\<rparr>)
         (quiet_world\<lparr>os_state := \<lparr>inbox = [5], armed = None, rest_left = True\<rparr>,
            lastError := ERROR_SUCCESS,
            trace := [Api (GetOverlappedResult 5) \<lparr>ret = 0, err = Some ERROR_MORE_DATA\<rparr>,
                      Api (SetLastError ERROR_SUCCESS) \<lparr>ret = 1, err = None\<rparr>,
                      Notify (PartialDataReceived [1, 2, 3, 4])]\<rparr>) \<and>
   OnWriteCompleted msgpipe_os (default_callbacks \<lparr>N = 4, M = 2, NDEBUG = True\<rparr> msgpipe_os)
      109 0 test_pipe quiet_world
     = (Returned, None,
        quiet_world\<lparr>trace := [Api (DisconnectNamedPipe 5) \<lparr>ret = 1, err = None\<rparr>,
                                Api (CloseHandle 5) \<lparr>ret = 1, err = None\<rparr>]\<rparr>)"
proof -
  let ?cbs = "default_callbacks \<lparr>N = 4, M = 2, NDEBUG = True\<rparr> msgpipe_os"
  let ?p = "test_pipe\<lparr>readBuffer := [1, 2, 3, 4]\<rparr>"
  let ?w = "quiet_world\<lparr>os_state := \<lparr>inbox = [5], armed = None, rest_left = True\<rparr>\<rparr>"
  have g: "api msgpipe_os (GetOverlappedResult (pipeHandle ?p)) ?w
      = (\<lparr>ret = 0, err = Some ERROR_MORE_DATA\<rparr>,
         ?w\<lparr>lastError := ERROR_MORE_DATA,
            trace := [Api (GetOverlappedResult 5) \<lparr>ret = 0, err = Some ERROR_MORE_DATA\<rparr>]\<rparr>)"
    by (simp add: api_def msgpipe_os_def issued_def quiet_world_def test_pipe_def)
  have r: "OnReadCompleted msgpipe_os ?cbs ERROR_SUCCESS 4 ?p ?w =
      OnPartialDataReceived ?cbs ?p (take (unat (4 :: dword)) (readBuffer ?p))
        (notify (PartialDataReceived (take (unat (4 :: dword)) (readBuffer ?p)))
           (set_last_error msgpipe_os ERROR_SUCCESS
              (snd (api msgpipe_os (GetOverlappedResult (pipeHandle ?p)) ?w))))"
    using completion_dispatch [of ERROR_SUCCESS msgpipe_os ?cbs 4 ?p ?w] g by simp
  have "(109 :: dword) \<noteq> ERROR_SUCCESS" by (simp add: ERROR_SUCCESS_def)
  then have wr: "OnWriteCompleted msgpipe_os ?cbs 109 0 test_pipe quiet_world
      = Disconnect msgpipe_os test_pipe quiet_world"
    using completion_dispatch [of 109 msgpipe_os ?cbs 0 test_pipe quiet_world] by simp
  show ?thesis
    unfolding r wr
    by (simp add: g default_callbacks_def set_last_error_def notify_def api_def msgpipe_os_def
        issued_def quiet_world_def test_pipe_def Disconnect_def handle_valid_def
        NULL_HANDLE_def INVALID_HANDLE_VALUE_def)
qed

subsection \<open>At most one operation in flight\<close>

lemma world_of_triple [simp]: "world_of (ctl, po, w) = w"
  by (simp add: world_of_def)


lemma inflight_api:
  "inflight (snd (api os c w)) = inflight w @ issued c (fst (api os c w))"
  by (simp add: api_def split: prod.splits)


lemma inflight_api_other:
  assumes "\<And>h n. c \<noteq> ReadFileEx h n" and "\<And>h bs. c \<noteq> WriteFileEx h bs"
  shows "inflight (snd (api os c w)) = inflight w"
  using assms by (cases c) (auto simp add: inflight_api issued_def)

lemma inflight_notify [simp]: "inflight (notify n w) = inflight w"
  by (simp add: notify_def)

lemma inflight_set_last_error [simp]: "inflight (set_last_error os e w) = inflight w"
  by (simp add: set_last_error_def inflight_api_other)

lemma inflight_Disconnect [simp]:
  "inflight (world_of (Disconnect os p w)) = inflight w"
proof -
  obtain a w1 where d: "api os (DisconnectNamedPipe (pipeHandle p)) w = (a, w1)"
    by (cases "api os (DisconnectNamedPipe (pipeHandle p)) w")
  have 1: "inflight w1 = inflight w"
    using inflight_api_other [of "DisconnectNamedPipe (pipeHandle p)" os w] d by simp
  have 2: "inflight (snd (api os (CloseHandle (pipeHandle p)) w1)) = inflight w1"
    by (rule inflight_api_other) simp_all
  show ?thesis
    by (simp add: Disconnect_def d world_of_def 1 2)
qed













subsection \<open>A message larger than the read buffer\<close>

lemma pump_idle:
  "armed (os_state w) = None \<Longrightarrow>
     pump cfg msgpipe_os msgpipe_deliver callbacks k p w = (Returned, Some p, w)"
  by (cases k) (simp_all add: msgpipe_deliver_def)

lemma pump_step_last:
  assumes "0 < N cfg" and "N cfg < 2 ^ 32" and "isConnected p" and "info_self p"
    and s: "os_state w = \<lparr>inbox = msg, armed = Some (of_nat (N cfg)), rest_left = r\<rparr>"
    and f: "inflight w = [ReadOp (of_nat (N cfg))]"
    and "msg \<noteq> []" and "length msg \<le> N cfg" and "lastError w \<noteq> ERROR_MORE_DATA"
  shows "pump cfg msgpipe_os msgpipe_deliver (default_callbacks cfg msgpipe_os) (Suc k) p w
     = (Returned, Some (p\<lparr>readBuffer := msg @ drop (length msg) (readBuffer p)\<rparr>),
        w\<lparr>os_state := \<lparr>inbox = [], armed = None, rest_left = False\<rparr>,
          inflight := [],
          trace := trace w @ [Api (GetOverlappedResult (pipeHandle p)) \<lparr>ret = 1, err = None\<rparr>,
                              Notify (DataReceived msg)]\<rparr>)"
proof -
  have u: "unat (of_nat (N cfg) :: dword) = N cfg"
    using assms(2) by (simp add: unat_of_nat)
  have l: "unat (of_nat (length msg) :: dword) = length msg"
    using assms(2,8) by (simp add: unat_of_nat)
  have d: "msgpipe_deliver (os_state w)
      = Some (ReadDone ERROR_SUCCESS msg, \<lparr>inbox = [], armed = None, rest_left = False\<rparr>)"
    using assms(7,8) by (simp add: msgpipe_deliver_def s u)
  let ?w0 = "w\<lparr>os_state := \<lparr>inbox = [], armed = None, rest_left = False\<rparr>\<rparr>"
  let ?p1 = "p\<lparr>readBuffer := msg @ drop (length msg) (readBuffer p)\<rparr>"
  let ?w1 = "w\<lparr>os_state := \<lparr>inbox = [], armed = None, rest_left = False\<rparr>,
          inflight := [],
          trace := trace w @ [Api (GetOverlappedResult (pipeHandle p)) \<lparr>ret = 1, err = None\<rparr>,
                              Notify (DataReceived msg)]\<rparr>"
  have c: "complete cfg msgpipe_os (default_callbacks cfg msgpipe_os)
        (ReadDone ERROR_SUCCESS msg) p ?w0 = (Returned, Some ?p1, ?w1)"
    using assms(3,4,8,9)
    by (simp add: complete_def f matches_def u ReadCompleted_def OnReadCompleted_def
        api_def msgpipe_os_def issued_def default_callbacks_def notify_def l Let_def)
  have i: "pump cfg msgpipe_os msgpipe_deliver (default_callbacks cfg msgpipe_os) k ?p1 ?w1
      = (Returned, Some ?p1, ?w1)"
    by (rule pump_idle) simp
  show ?thesis
    by (simp add: d c i)
qed

lemma pump_step_partial:
  assumes "0 < N cfg" and "N cfg < 2 ^ 32" and "isConnected p" and "info_self p"
    and s: "os_state w = \<lparr>inbox = msg, armed = Some (of_nat (N cfg)), rest_left = r\<rparr>"
    and f: "inflight w = [ReadOp (of_nat (N cfg))]"
    and "N cfg < length msg"
  shows "pump cfg msgpipe_os msgpipe_deliver (default_callbacks cfg msgpipe_os) (Suc k) p w
     = pump cfg msgpipe_os msgpipe_deliver (default_callbacks cfg msgpipe_os) k
        (p\<lparr>readBuffer := take (N cfg) msg @ drop (N cfg) (readBuffer p)\<rparr>)
        (w\<lparr>os_state := \<lparr>inbox = drop (N cfg) msg, armed = Some (of_nat (N cfg)),
                         rest_left = True\<rparr>,
          lastError := ERROR_SUCCESS,
          inflight := [ReadOp (of_nat (N cfg))],
          trace := trace w @
            [Api (GetOverlappedResult (pipeHandle p)) \<lparr>ret = 0, err = Some ERROR_MORE_DATA\<rparr>,
             Api (SetLastError ERROR_SUCCESS) \<lparr>ret = 1, err = None\<rparr>,
             Notify (PartialDataReceived (take (N cfg) msg)),
             Api (ReadFileEx (pipeHandle p) (of_nat (N cfg))) \<lparr>ret = 1, err = None\<rparr>]\<rparr>)"
proof -
  have u: "unat (of_nat (N cfg) :: dword) = N cfg"
    using assms(2) by (simp add: unat_of_nat)
  have ne: "msg \<noteq> []" using assms(7) by auto
  have lt: "length (take (N cfg) msg) = N cfg" using assms(7) by simp
  have d: "msgpipe_deliver (os_state w)
      = Some (ReadDone ERROR_SUCCESS (take (N cfg) msg),
              \<lparr>inbox = drop (N cfg) msg, armed = None, rest_left = True\<rparr>)"
    using assms(7) ne by (simp add: msgpipe_deliver_def s u)
  let ?w0 = "w\<lparr>os_state := \<lparr>inbox = drop (N cfg) msg, armed = None, rest_left = True\<rparr>\<rparr>"
  let ?p1 = "p\<lparr>readBuffer := take (N cfg) msg @ drop (N cfg) (readBuffer p)\<rparr>"
  let ?w1 = "w\<lparr>os_state := \<lparr>inbox = drop (N cfg) msg, armed = Some (of_nat (N cfg)),
                         rest_left = True\<rparr>,
          lastError := ERROR_SUCCESS,
          inflight := [ReadOp (of_nat (N cfg))],
          trace := trace w @
            [Api (GetOverlappedResult (pipeHandle p)) \<lparr>ret = 0, err = Some ERROR_MORE_DATA\<rparr>,
             Api (SetLastError ERROR_SUCCESS) \<lparr>ret = 1, err = None\<rparr>,
             Notify (PartialDataReceived (take (N cfg) msg)),
             Api (ReadFileEx (pipeHandle p) (of_nat (N cfg))) \<lparr>ret = 1, err = None\<rparr>]\<rparr>"
  have c: "complete cfg msgpipe_os (default_callbacks cfg msgpipe_os)
        (ReadDone ERROR_SUCCESS (take (N cfg) msg)) p ?w0 = (Returned, Some ?p1, ?w1)"
    using assms(3,4,7)
    by (simp add: complete_def f matches_def u ReadCompleted_def OnReadCompleted_def
        api_def msgpipe_os_def issued_def default_callbacks_def notify_def Let_def
        set_last_error_def ListenForData_def min_def)
  show ?thesis
    by (simp add: d c)
qed

lemma notifications_append [simp]:
  "notifications (xs @ ys) = notifications xs @ notifications ys"
  by (simp add: notifications_def)

lemma notifications_Cons [simp]:
  "notifications (Api c a # xs) = notifications xs"
  "notifications (Notify n # xs) = n # notifications xs"
  "notifications [] = []"
  by (simp_all add: notifications_def)

lemma chunk_count_last:
  assumes "0 < n" and "0 < l" and "l \<le> n"
  shows "(l + n - 1) div n = (1::nat)"
proof (rule div_nat_eqI)
  show "n * 1 \<le> l + n - 1" using assms by simp
  show "l + n - 1 < n * Suc 1" using assms by simp
qed

lemma chunk_count_step:
  assumes "0 < n" and "n < l"
  shows "(l + n - 1) div n = Suc ((l - n + n - 1) div n)"
proof -
  have a: "l + n - 1 = (l - 1) + n" using assms by arith
  have b: "l - n + n - 1 = l - 1" using assms by arith
  have "n \<noteq> 0" using assms(1) by simp
  then have "(l - 1 + n) div n = Suc ((l - 1) div n)"
    by (simp add: div_add_self2)
  then show ?thesis
    by (simp only: a b)
qed

lemma pump_message:
  assumes "0 < N cfg" and "N cfg < 2 ^ 32" and "isConnected p" and "info_self p"
    and "os_state w = \<lparr>inbox = msg, armed = Some (of_nat (N cfg)), rest_left = r\<rparr>"
    and "inflight w = [ReadOp (of_nat (N cfg))]"
    and "msg \<noteq> []"
    and "N cfg < length msg \<or> lastError w \<noteq> ERROR_MORE_DATA"
    and "(length msg + N cfg - 1) div N cfg \<le> k"
  shows "\<exists>p' w' ps d.
      pump cfg msgpipe_os msgpipe_deliver (default_callbacks cfg msgpipe_os) k p w
        = (Returned, Some p', w') \<and>
      notifications (trace w')
        = notifications (trace w) @ map PartialDataReceived ps @ [DataReceived d] \<and>
      length ps = (length msg + N cfg - 1) div N cfg - 1 \<and>
      (\<forall>c \<in> set ps. length c = N cfg) \<and>
      concat ps @ d = msg \<and>
      inflight w' = [] \<and> inbox (os_state w') = []"
  using assms(3-)
proof (induction k arbitrary: p w msg r)
  case 0
  from "0.prems"(5) have "0 < length msg" by simp
  then have "N cfg \<le> length msg + N cfg - 1" by arith
  then have "0 < (length msg + N cfg - 1) div N cfg"
    using assms(1) by (simp add: div_greater_zero_iff)
  with "0.prems"(7) show ?case by simp
next
  case (Suc k)
  let ?cbs = "default_callbacks cfg msgpipe_os"
  show ?case
  proof (cases "N cfg < length msg")
    case False
    then have le: "length msg \<le> N cfg" by simp
    with Suc.prems(6) have ne: "lastError w \<noteq> ERROR_MORE_DATA" by simp
    have "0 < length msg" using Suc.prems(5) by simp
    then have one: "(length msg + N cfg - 1) div N cfg = 1"
      using assms(1) le by (intro chunk_count_last)
    note st = pump_step_last [OF assms(1,2) Suc.prems(1,2,3,4,5) le ne, of k]
    let ?w' = "w\<lparr>os_state := \<lparr>inbox = [], armed = None, rest_left = False\<rparr>,
          inflight := [],
          trace := trace w @ [Api (GetOverlappedResult (pipeHandle p)) \<lparr>ret = 1, err = None\<rparr>,
                              Notify (DataReceived msg)]\<rparr>"
    have 1: "notifications (trace ?w')
        = notifications (trace w) @ map PartialDataReceived [] @ [DataReceived msg]"
      by simp
    have 2: "length ([] :: byte list list) = (length msg + N cfg - 1) div N cfg - 1"
      unfolding one by simp
    have 3: "\<forall>c \<in> set ([] :: byte list list). length c = N cfg" by simp
    have 4: "concat [] @ msg = msg" by simp
    have 5: "inflight ?w' = []" by simp
    have 6: "inbox (os_state ?w') = []" by simp
    show ?thesis
      by (intro exI conjI) (rule st, rule 1, rule 2, rule 3, rule 4, rule 5, rule 6)
  next
    case True
    let ?p1 = "p\<lparr>readBuffer := take (N cfg) msg @ drop (N cfg) (readBuffer p)\<rparr>"
    let ?w1 = "w\<lparr>os_state := \<lparr>inbox = drop (N cfg) msg, armed = Some (of_nat (N cfg)),
                         rest_left = True\<rparr>,
          lastError := ERROR_SUCCESS,
          inflight := [ReadOp (of_nat (N cfg))],
          trace := trace w @
            [Api (GetOverlappedResult (pipeHandle p)) \<lparr>ret = 0, err = Some ERROR_MORE_DATA\<rparr>,
             Api (SetLastError ERROR_SUCCESS) \<lparr>ret = 1, err = None\<rparr>,
             Notify (PartialDataReceived (take (N cfg) msg)),
             Api (ReadFileEx (pipeHandle p) (of_nat (N cfg))) \<lparr>ret = 1, err = None\<rparr>]\<rparr>"
    note st = pump_step_partial [OF assms(1,2) Suc.prems(1,2,3,4) True, of k]
    have cnt: "(length msg + N cfg - 1) div N cfg
        = Suc ((length (drop (N cfg) msg) + N cfg - 1) div N cfg)"
      using chunk_count_step [OF assms(1) True] by simp
    have k: "(length (drop (N cfg) msg) + N cfg - 1) div N cfg \<le> k"
      using Suc.prems(7) cnt by simp
    have ne: "drop (N cfg) msg \<noteq> []" using True by simp
    have le: "N cfg < length (drop (N cfg) msg) \<or> lastError ?w1 \<noteq> ERROR_MORE_DATA"
      by (simp add: ERROR_SUCCESS_def ERROR_MORE_DATA_def)
    have "\<exists>p' w' ps d.
      pump cfg msgpipe_os msgpipe_deliver ?cbs k ?p1 ?w1 = (Returned, Some p', w') \<and>
      notifications (trace w')
        = notifications (trace ?w1) @ map PartialDataReceived ps @ [DataReceived d] \<and>
      length ps = (length (drop (N cfg) msg) + N cfg - 1) div N cfg - 1 \<and>
      (\<forall>c \<in> set ps. length c = N cfg) \<and>
      concat ps @ d = drop (N cfg) msg \<and>
      inflight w' = [] \<and> inbox (os_state w') = []"
      by (rule Suc.IH [OF _ _ _ _ ne le k]) (simp_all add: Suc.prems(1,2))
    then obtain p' w' ps d where
      run: "pump cfg msgpipe_os msgpipe_deliver ?cbs k ?p1 ?w1 = (Returned, Some p', w')"
      and tr: "notifications (trace w')
        = notifications (trace ?w1) @ map PartialDataReceived ps @ [DataReceived d]"
      and len: "length ps = (length (drop (N cfg) msg) + N cfg - 1) div N cfg - 1"
      and all: "\<forall>c \<in> set ps. length c = N cfg"
      and cat: "concat ps @ d = drop (N cfg) msg"
      and fin: "inflight w' = []" "inbox (os_state w') = []"
      by blast
    have pos: "0 < (length (drop (N cfg) msg) + N cfg - 1) div N cfg"
    proof -
      have "0 < length (drop (N cfg) msg)" using ne by simp
      then have "N cfg \<le> length (drop (N cfg) msg) + N cfg - 1" by arith
      then show ?thesis using assms(1) by (simp add: div_greater_zero_iff)
    qed
    have cat': "concat (take (N cfg) msg # ps) @ d = msg"
      using cat by simp
    have 1: "pump cfg msgpipe_os msgpipe_deliver ?cbs (Suc k) p w = (Returned, Some p', w')"
      unfolding st by (rule run)
    have 2: "notifications (trace w')
        = notifications (trace w) @ map PartialDataReceived (take (N cfg) msg # ps)
            @ [DataReceived d]"
      unfolding tr by simp
    have 3: "length (take (N cfg) msg # ps) = (length msg + N cfg - 1) div N cfg - 1"
      unfolding cnt using len pos by simp
    have 4: "\<forall>c \<in> set (take (N cfg) msg # ps). length c = N cfg"
      using all True by simp
    show ?thesis
      by (intro exI conjI) (rule 1, rule 2, rule 3, rule 4, rule cat', rule fin(1), rule fin(2))
  qed
qed

text \<open>
  Claim C1. A connected pipe listens with a read of \<open>N\<close> bytes
  (\<open>0 < N < 2^32\<close>), and a client has written a message of more than \<open>N\<close>
  bytes to the pipe in message mode. Then, with the default callbacks and once at
  least \<open>ceil(S / N)\<close> completions have been looked at, the notifications are
  \<open>ceil(S / N) - 1\<close> times \<open>OnPartialDataReceived\<close>, each with \<open>N\<close> bytes,
  followed by one \<open>OnDataReceived\<close>; the chunks in this order make up the
  message; nothing more is in flight or left in the pipe.
\<close>

theorem overflow_framing:
  assumes "0 < N cfg" and "N cfg < 2 ^ 32" and "isConnected p" and "info_self p"
    and "os_state w = \<lparr>inbox = msg, armed = Some (of_nat (N cfg)), rest_left = r\<rparr>"
    and "inflight w = [ReadOp (of_nat (N cfg))]"
    and "N cfg < length msg"
    and "(length msg + N cfg - 1) div N cfg \<le> k"
  shows "\<exists>p' w' ps d.
      pump cfg msgpipe_os msgpipe_deliver (default_callbacks cfg msgpipe_os) k p w
        = (Returned, Some p', w') \<and>
      notifications (trace w')
        = notifications (trace w) @ map PartialDataReceived ps @ [DataReceived d] \<and>
      length ps = (length msg + N cfg - 1) div N cfg - 1 \<and>
      (\<forall>c \<in> set ps. length c = N cfg) \<and>
      concat ps @ d = msg \<and>
      inflight w' = [] \<and> inbox (os_state w') = []"
proof -
  from assms(7) have "msg \<noteq> []" by auto
  moreover from assms(7) have "N cfg < length msg \<or> lastError w \<noteq> ERROR_MORE_DATA" by simp
  ultimately show ?thesis
    using assms by (intro pump_message)
qed

text \<open>Claim C1 at \<open>N = 2\<close> and the message of the five bytes 1 to 5.\<close>

theorem overflow_framing_witness:
  "(\<exists>p' w' ps d.
      pump \<lparr>N = 2, M = 2, NDEBUG = True\<rparr> msgpipe_os msgpipe_deliver
          (default_callbacks \<lparr>N = 2, M = 2, NDEBUG = True\<rparr> msgpipe_os) 3 small_pipe listening_world
        = (Returned, Some p', w') \<and>
      notifications (trace w') = map PartialDataReceived ps @ [DataReceived d] \<and>
      length ps = 2 \<and> concat ps @ d = [1, 2, 3, 4, 5]) \<and>
   notifications (trace (world_of
      (pump \<lparr>N = 2, M = 2, NDEBUG = True\<rparr> msgpipe_os msgpipe_deliver
          (default_callbacks \<lparr>N = 2, M = 2, NDEBUG = True\<rparr> msgpipe_os) 3 small_pipe listening_world)))
     = [PartialDataReceived [1, 2], PartialDataReceived [3, 4], DataReceived [5]]"
proof
  let ?cfg = "\<lparr>N = 2, M = 2, NDEBUG = True\<rparr>"
  have h1: "0 < N ?cfg" by simp
  have h2: "N ?cfg < 2 ^ 32" by simp
  have h3: "isConnected small_pipe" by (simp add: small_pipe_def)
  have h4: "info_self small_pipe" by (simp add: small_pipe_def)
  have h5: "os_state listening_world
      = \<lparr>inbox = [1, 2, 3, 4, 5], armed = Some (of_nat (N ?cfg)), rest_left = False\<rparr>"
    by (simp add: listening_world_def)
  have h6: "inflight listening_world = [ReadOp (of_nat (N ?cfg))]"
    by (simp add: listening_world_def)
  have h7: "N ?cfg < length [1, 2, 3, 4, 5 :: byte]" by simp
  have h8: "(length [1, 2, 3, 4, 5 :: byte] + N ?cfg - 1) div N ?cfg \<le> 3" by simp
  from overflow_framing [OF h1 h2 h3 h4 h5 h6 h7 h8]
  obtain p' w' ps d where
    a: "pump ?cfg msgpipe_os msgpipe_deliver (default_callbacks ?cfg msgpipe_os) 3
          small_pipe listening_world = (Returned, Some p', w')"
    and b: "notifications (trace w')
        = notifications (trace listening_world) @ map PartialDataReceived ps @ [DataReceived d]"
    and c: "length ps = (length [1, 2, 3, 4, 5 :: byte] + N ?cfg - 1) div N ?cfg - 1"
    and e: "concat ps @ d = [1, 2, 3, 4, 5]"
    by blast
  have b': "notifications (trace w') = map PartialDataReceived ps @ [DataReceived d]"
    using b by (simp add: listening_world_def)
  have c': "length ps = 2"
    using c by simp
  show "\<exists>p' w' ps d.
      pump ?cfg msgpipe_os msgpipe_deliver (default_callbacks ?cfg msgpipe_os) 3
          small_pipe listening_world
        = (Returned, Some p', w') \<and>
      notifications (trace w') = map PartialDataReceived ps @ [DataReceived d] \<and>
      length ps = 2 \<and> concat ps @ d = [1, 2, 3, 4, 5]"
    by (intro exI conjI) (rule a, rule b', rule c', rule e)
next
  show "notifications (trace (world_of
      (pump \<lparr>N = 2, M = 2, NDEBUG = True\<rparr> msgpipe_os msgpipe_deliver
          (default_callbacks \<lparr>N = 2, M = 2, NDEBUG = True\<rparr> msgpipe_os) 3 small_pipe listening_world)))
     = [PartialDataReceived [1, 2], PartialDataReceived [3, 4], DataReceived [5]]"
    unfolding numeral_3_eq_3
    by (simp add: msgpipe_deliver_def complete_def matches_def
        ReadCompleted_def OnReadCompleted_def api_def msgpipe_os_def issued_def
        default_callbacks_def notify_def set_last_error_def ListenForData_def Let_def
        small_pipe_def listening_world_def ERROR_SUCCESS_def ERROR_MORE_DATA_def)
qed

text \<open>
  The state in which claim C1 starts is the one the pipe's own \<open>Connect\<close>
  and \<open>OnConnected\<close> produce on the message-mode system; so the framing holds
  for a pipe served from the start, after the notification of the connection.
\<close>

lemma serve_listens:
  assumes "os_state w = \<lparr>inbox = msg, armed = a, rest_left = False\<rparr>"
    and "inflight w = []"
  shows "serve cfg msgpipe_os msgpipe_deliver (default_callbacks cfg msgpipe_os) name ev k p w
    = pump cfg msgpipe_os msgpipe_deliver (default_callbacks cfg msgpipe_os) k
        (p\<lparr>info_hEvent := ev, info_self := True, pipeHandle := 1,
           isConnectionPending := False, isConnected := True\<rparr>)
        (w\<lparr>os_state := \<lparr>inbox = msg, armed = Some (of_nat (N cfg)), rest_left = False\<rparr>,
           lastError := ERROR_IO_PENDING,
           inflight := [ReadOp (of_nat (N cfg))],
           trace := trace w @
             [Api (CreateNamedPipeA name (of_nat (N cfg)) (of_nat (N cfg))) \<lparr>ret = 1, err = None\<rparr>,
              Api (ConnectNamedPipe 1) \<lparr>ret = 0, err = Some ERROR_IO_PENDING\<rparr>,
              Api (GetOverlappedResult 1) \<lparr>ret = 1, err = None\<rparr>,
              Notify PipeConnected,
              Api (ReadFileEx 1 (of_nat (N cfg))) \<lparr>ret = 1, err = None\<rparr>]\<rparr>)"
proof -
  let ?p1 = "p\<lparr>info_hEvent := ev, info_self := True, pipeHandle := 1,
           isConnectionPending := True\<rparr>"
  let ?w1 = "w\<lparr>lastError := ERROR_IO_PENDING,
           trace := trace w @
             [Api (CreateNamedPipeA name (of_nat (N cfg)) (of_nat (N cfg))) \<lparr>ret = 1, err = None\<rparr>,
              Api (ConnectNamedPipe 1) \<lparr>ret = 0, err = Some ERROR_IO_PENDING\<rparr>]\<rparr>"
  let ?p2 = "p\<lparr>info_hEvent := ev, info_self := True, pipeHandle := 1,
           isConnectionPending := False, isConnected := True\<rparr>"
  let ?w2 = "w\<lparr>os_state := \<lparr>inbox = msg, armed = Some (of_nat (N cfg)), rest_left = False\<rparr>,
           lastError := ERROR_IO_PENDING,
           inflight := [ReadOp (of_nat (N cfg))],
           trace := trace w @
             [Api (CreateNamedPipeA name (of_nat (N cfg)) (of_nat (N cfg))) \<lparr>ret = 1, err = None\<rparr>,
              Api (ConnectNamedPipe 1) \<lparr>ret = 0, err = Some ERROR_IO_PENDING\<rparr>,
              Api (GetOverlappedResult 1) \<lparr>ret = 1, err = None\<rparr>,
              Notify PipeConnected,
              Api (ReadFileEx 1 (of_nat (N cfg))) \<lparr>ret = 1, err = None\<rparr>]\<rparr>"
  have c: "Connect cfg msgpipe_os name ev p w = (Returned, Some ?p1, ?w1)"
    using assms
    by (simp add: Connect_def api_def msgpipe_os_def issued_def Let_def INVALID_HANDLE_VALUE_def)
  have o: "OnConnected cfg msgpipe_os (default_callbacks cfg msgpipe_os) ?p1 ?w1
      = (Returned, Some ?p2, ?w2)"
    using assms
    by (simp add: OnConnected_def api_def msgpipe_os_def issued_def default_callbacks_def
        notify_def ListenForData_def Let_def)
  show ?thesis
    by (simp only: serve_def c o prod.case control.case option.case)
qed


lemma overflow_framing_served:
  assumes "0 < N cfg" and "N cfg < 2 ^ 32"
    and "os_state w = \<lparr>inbox = msg, armed = a, rest_left = False\<rparr>"
    and "inflight w = []"
    and "N cfg < length msg"
    and "(length msg + N cfg - 1) div N cfg \<le> k"
  shows "\<exists>p' w' ps d.
      serve cfg msgpipe_os msgpipe_deliver (default_callbacks cfg msgpipe_os) name ev k p w
        = (Returned, Some p', w') \<and>
      notifications (trace w')
        = notifications (trace w) @ PipeConnected # map PartialDataReceived ps @ [DataReceived d] \<and>
      length ps = (length msg + N cfg - 1) div N cfg - 1 \<and>
      (\<forall>c \<in> set ps. length c = N cfg) \<and>
      concat ps @ d = msg"
proof -
  let ?p2 = "p\<lparr>info_hEvent := ev, info_self := True, pipeHandle := 1,
           isConnectionPending := False, isConnected := True\<rparr>"
  let ?w2 = "w\<lparr>os_state := \<lparr>inbox = msg, armed = Some (of_nat (N cfg)), rest_left = False\<rparr>,
           lastError := ERROR_IO_PENDING,
           inflight := [ReadOp (of_nat (N cfg))],
           trace := trace w @
             [Api (CreateNamedPipeA name (of_nat (N cfg)) (of_nat (N cfg))) \<lparr>ret = 1, err = None\<rparr>,
              Api (ConnectNamedPipe 1) \<lparr>ret = 0, err = Some ERROR_IO_PENDING\<rparr>,
              Api (GetOverlappedResult 1) \<lparr>ret = 1, err = None\<rparr>,
              Notify PipeConnected,
              Api (ReadFileEx 1 (of_nat (N cfg))) \<lparr>ret = 1, err = None\<rparr>]\<rparr>"
  have ne: "msg \<noteq> []" using assms(5) by auto
  have "\<exists>p' w' ps d.
      pump cfg msgpipe_os msgpipe_deliver (default_callbacks cfg msgpipe_os) k ?p2 ?w2
        = (Returned, Some p', w') \<and>
      notifications (trace w')
        = notifications (trace ?w2) @ map PartialDataReceived ps @ [DataReceived d] \<and>
      length ps = (length msg + N cfg - 1) div N cfg - 1 \<and>
      (\<forall>c \<in> set ps. length c = N cfg) \<and>
      concat ps @ d = msg \<and>
      inflight w' = [] \<and> inbox (os_state w') = []"
    using assms(1,2,5,6) ne by (intro pump_message) simp_all
  then obtain p' w' ps d where
    run: "pump cfg msgpipe_os msgpipe_deliver (default_callbacks cfg msgpipe_os) k ?p2 ?w2
        = (Returned, Some p', w')"
    and tr: "notifications (trace w')
        = notifications (trace ?w2) @ map PartialDataReceived ps @ [DataReceived d]"
    and len: "length ps = (length msg + N cfg - 1) div N cfg - 1"
    and all: "\<forall>c \<in> set ps. length c = N cfg"
    and cat: "concat ps @ d = msg"
    by blast
  have 1: "serve cfg msgpipe_os msgpipe_deliver (default_callbacks cfg msgpipe_os) name ev k p w
      = (Returned, Some p', w')"
    unfolding serve_listens [OF assms(3,4)] by (rule run)
  have 2: "notifications (trace w')
      = notifications (trace w) @ PipeConnected # map PartialDataReceived ps @ [DataReceived d]"
    unfolding tr by simp
  show ?thesis
    by (intro exI conjI) (rule 1, rule 2, rule len, rule all, rule cat)
qed

section \<open>Properties of the client-side pipe\<close>

lemma ConnectPipeImmediately_result:
  assumes "ConnectPipeImmediately os name c w = (Inr b, c1, w1)"
  shows "b = handle_valid (clientHandle c1)"
  using assms
  by (auto simp add: ConnectPipeImmediately_def Let_def split: prod.splits if_splits)

lemma ClientPipe_Connect_result:
  assumes "ClientPipe_Connect os name t c w = (Inr b, c1, w1)"
  shows "b = handle_valid (clientHandle c1)"
proof (cases "ConnectPipeImmediately os name c w")
  case (fields r1 c' w')
  show ?thesis
  proof (cases r1)
    case (Inl e)
    with fields assms show ?thesis by (simp add: ClientPipe_Connect_def)
  next
    case (Inr b1)
    note first = ConnectPipeImmediately_result [OF fields [unfolded Inr]]
    show ?thesis
    proof (cases b1)
      case True
      with fields Inr assms first show ?thesis by (simp add: ClientPipe_Connect_def)
    next
      case False
      obtain r2 w2 where wait: "WaitForPipe os name t w' = (r2, w2)"
        by (cases "WaitForPipe os name t w'")
      show ?thesis
      proof (cases r2)
        case (Inl e)
        with fields \<open>r1 = Inr b1\<close> False wait assms show ?thesis
          by (simp add: ClientPipe_Connect_def)
      next
        case (Inr b2)
        show ?thesis
        proof (cases b2)
          case True
          with fields \<open>r1 = Inr b1\<close> False wait Inr assms
          have "ConnectPipeImmediately os name c' w2 = (Inr b, c1, w1)"
            by (simp add: ClientPipe_Connect_def)
          then show ?thesis by (rule ConnectPipeImmediately_result)
        next
          case b2f: False
          with fields \<open>r1 = Inr b1\<close> False wait Inr assms first show ?thesis
            by (simp add: ClientPipe_Connect_def)
        qed
      qed
    qed
  qed
qed

lemma opens_api:
  "opens (trace (snd (api os c w)))
     = opens (trace w) + (case c of CreateFile n \<Rightarrow> 1 | _ \<Rightarrow> 0)"
  by (simp add: api_def opens_def split: prod.splits oscall.splits)

lemma opens_ConnectPipeImmediately:
  "opens (trace (snd (snd (ConnectPipeImmediately os name c w)))) = opens (trace w) + 1"
proof -
  obtain a1 w1 where o: "api os (CreateFile name) w = (a1, w1)"
    by (cases "api os (CreateFile name) w")
  obtain b w2 where m: "api os (SetNamedPipeHandleState (ret a1)) w1 = (b, w2)"
    by (cases "api os (SetNamedPipeHandleState (ret a1)) w1")
  have 1: "opens (trace w1) = opens (trace w) + 1"
    using opens_api [of os "CreateFile name" w] o by simp
  have 2: "opens (trace w2) = opens (trace w1)"
    using opens_api [of os "SetNamedPipeHandleState (ret a1)" w1] m by simp
  show ?thesis
    by (simp add: ConnectPipeImmediately_def o m 1 2 Let_def)
qed

lemma opens_WaitForPipe:
  "opens (trace (snd (WaitForPipe os name t w))) = opens (trace w)"
proof -
  obtain a w1 where o: "api os (WaitNamedPipe name (ucast t)) w = (a, w1)"
    by (cases "api os (WaitNamedPipe name (ucast t)) w")
  have "opens (trace w1) = opens (trace w)"
    using opens_api [of os "WaitNamedPipe name (ucast t)" w] o by simp
  then show ?thesis
    by (simp add: WaitForPipe_def o Let_def)
qed

lemma opens_ClientPipe_Connect:
  "opens (trace (snd (snd (ClientPipe_Connect os name t c w)))) \<le> opens (trace w) + 2"
proof -
  obtain r1 c1 w1 where i: "ConnectPipeImmediately os name c w = (r1, c1, w1)"
    by (cases "ConnectPipeImmediately os name c w")
  obtain r2 w2 where wt: "WaitForPipe os name t w1 = (r2, w2)"
    by (cases "WaitForPipe os name t w1")
  have 1: "opens (trace w1) = opens (trace w) + 1"
    using opens_ConnectPipeImmediately [of os name c w] i by simp
  have 2: "opens (trace w2) = opens (trace w1)"
    using opens_WaitForPipe [of os name t w1] wt by simp
  have 3: "opens (trace (snd (snd (ConnectPipeImmediately os name c1 w2)))) = opens (trace w2) + 1"
    by (rule opens_ConnectPipeImmediately)
  show ?thesis
    using 1 2 3
    by (simp add: ClientPipe_Connect_def i wt split: sum.splits bool.splits)
qed

text \<open>
  Claim C3, amended. \<open>ClientPipe::Connect\<close> first calls \<open>CreateFile\<close>. If
  that fails with an error other than \<open>ERROR_PIPE_BUSY\<close>, it throws, with no
  further call. If it yields a valid handle, the pipe is set to message mode and the
  result is true (or an \<open>Error\<close> if the mode cannot be set). Otherwise no
  instance is available: it calls \<open>WaitNamedPipe\<close> with the interval cast to a
  \<open>DWORD\<close>; when the wait succeeds it opens once more, and that second attempt
  is the result (two opens in all); when the wait fails with \<open>ERROR_SEM_TIMEOUT\<close>
  the result is false and nothing is thrown; when it fails with another error it
  throws. The result is true exactly if the handle is valid in the end, and never
  more than two opens are made. How long the wait takes is the system's matter.
\<close>

theorem ClientPipe_Connect_behaviour:
  assumes "api os (CreateFile name) w = (a1, w1)"
  shows
   "(ret a1 = INVALID_HANDLE_VALUE \<and> lastError w1 \<noteq> ERROR_PIPE_BUSY \<longrightarrow>
       ClientPipe_Connect os name t c w =
         (Inl (Error ''Failed to open client-side pipe.'' (Some (lastError w1))),
          c\<lparr>clientHandle := ret a1\<rparr>, w1)) \<and>
    (handle_valid (ret a1) \<longrightarrow>
       (\<forall>b w2. api os (SetNamedPipeHandleState (ret a1)) w1 = (b, w2) \<longrightarrow>
          (ret b \<noteq> 0 \<longrightarrow>
             ClientPipe_Connect os name t c w = (Inr True, c\<lparr>clientHandle := ret a1\<rparr>, w2)) \<and>
          (ret b = 0 \<longrightarrow>
             ClientPipe_Connect os name t c w =
               (Inl (Error ''Failed to set mode of client-side pipe.'' (Some (lastError w2))),
                c\<lparr>clientHandle := ret a1\<rparr>, w2)))) \<and>
    (\<not> handle_valid (ret a1) \<and>
       (ret a1 = INVALID_HANDLE_VALUE \<longrightarrow> lastError w1 = ERROR_PIPE_BUSY) \<longrightarrow>
       (\<forall>a2 w2. api os (WaitNamedPipe name (ucast t)) w1 = (a2, w2) \<longrightarrow>
          (ret a2 \<noteq> 0 \<longrightarrow>
             ClientPipe_Connect os name t c w =
               ConnectPipeImmediately os name (c\<lparr>clientHandle := ret a1\<rparr>) w2 \<and>
             opens (trace (snd (snd (ClientPipe_Connect os name t c w)))) = opens (trace w) + 2) \<and>
          (ret a2 = 0 \<and> lastError w2 = ERROR_SEM_TIMEOUT \<longrightarrow>
             ClientPipe_Connect os name t c w = (Inr False, c\<lparr>clientHandle := ret a1\<rparr>, w2)) \<and>
          (ret a2 = 0 \<and> lastError w2 \<noteq> ERROR_SEM_TIMEOUT \<longrightarrow>
             ClientPipe_Connect os name t c w =
               (Inl (Error ''Waiting for pipe failed.'' (Some (lastError w2))),
                c\<lparr>clientHandle := ret a1\<rparr>, w2)))) \<and>
    (\<forall>b c1 wf. ClientPipe_Connect os name t c w = (Inr b, c1, wf) \<longrightarrow>
       b = handle_valid (clientHandle c1)) \<and>
    opens (trace (snd (snd (ClientPipe_Connect os name t c w)))) \<le> opens (trace w) + 2"
proof (intro conjI impI allI)
  assume "ret a1 = INVALID_HANDLE_VALUE \<and> lastError w1 \<noteq> ERROR_PIPE_BUSY"
  then show "ClientPipe_Connect os name t c w =
         (Inl (Error ''Failed to open client-side pipe.'' (Some (lastError w1))),
          c\<lparr>clientHandle := ret a1\<rparr>, w1)"
    using assms by (simp add: ClientPipe_Connect_def ConnectPipeImmediately_def)
next
  fix b w2
  assume v: "handle_valid (ret a1)"
    and m: "api os (SetNamedPipeHandleState (ret a1)) w1 = (b, w2)"
  have ni: "ret a1 \<noteq> INVALID_HANDLE_VALUE"
    using v by (simp add: handle_valid_def)
  { assume "ret b \<noteq> 0"
    then show "ClientPipe_Connect os name t c w = (Inr True, c\<lparr>clientHandle := ret a1\<rparr>, w2)"
      using assms v m ni by (simp add: ClientPipe_Connect_def ConnectPipeImmediately_def) }
  { assume "ret b = 0"
    then show "ClientPipe_Connect os name t c w =
               (Inl (Error ''Failed to set mode of client-side pipe.'' (Some (lastError w2))),
                c\<lparr>clientHandle := ret a1\<rparr>, w2)"
      using assms v m ni by (simp add: ClientPipe_Connect_def ConnectPipeImmediately_def) }
next
  fix a2 w2
  assume busy: "\<not> handle_valid (ret a1) \<and>
       (ret a1 = INVALID_HANDLE_VALUE \<longrightarrow> lastError w1 = ERROR_PIPE_BUSY)"
    and wt: "api os (WaitNamedPipe name (ucast t)) w1 = (a2, w2)"
  have first: "ConnectPipeImmediately os name c w = (Inr False, c\<lparr>clientHandle := ret a1\<rparr>, w1)"
    using assms busy by (auto simp add: ConnectPipeImmediately_def)
  have o1: "opens (trace w1) = opens (trace w) + 1"
    using opens_api [of os "CreateFile name" w] assms by simp
  have o2: "opens (trace w2) = opens (trace w1)"
    using opens_api [of os "WaitNamedPipe name (ucast t)" w1] wt by simp
  { assume ok: "ret a2 \<noteq> 0"
    then show r: "ClientPipe_Connect os name t c w =
               ConnectPipeImmediately os name (c\<lparr>clientHandle := ret a1\<rparr>) w2"
      using first wt by (simp add: ClientPipe_Connect_def WaitForPipe_def)
    show "opens (trace (snd (snd (ClientPipe_Connect os name t c w)))) = opens (trace w) + 2"
      unfolding r using opens_ConnectPipeImmediately [of os name "c\<lparr>clientHandle := ret a1\<rparr>" w2]
        o1 o2 by simp }
  { assume "ret a2 = 0 \<and> lastError w2 = ERROR_SEM_TIMEOUT"
    then show "ClientPipe_Connect os name t c w = (Inr False, c\<lparr>clientHandle := ret a1\<rparr>, w2)"
      using first wt by (simp add: ClientPipe_Connect_def WaitForPipe_def) }
  { assume "ret a2 = 0 \<and> lastError w2 \<noteq> ERROR_SEM_TIMEOUT"
    then show "ClientPipe_Connect os name t c w =
               (Inl (Error ''Waiting for pipe failed.'' (Some (lastError w2))),
                c\<lparr>clientHandle := ret a1\<rparr>, w2)"
      using first wt by (simp add: ClientPipe_Connect_def WaitForPipe_def) }
next
  fix b c1 wf
  assume "ClientPipe_Connect os name t c w = (Inr b, c1, wf)"
  then show "b = handle_valid (clientHandle c1)"
    by (rule ClientPipe_Connect_result)
next
  show "opens (trace (snd (snd (ClientPipe_Connect os name t c w)))) \<le> opens (trace w) + 2"
    by (rule opens_ClientPipe_Connect)
qed

text \<open>
  Claim C3 as stated fails for a pipe name that does not exist: the open fails with
  \<open>ERROR_FILE_NOT_FOUND\<close>, which is not \<open>ERROR_PIPE_BUSY\<close>, so
  \<open>Connect\<close> throws instead of returning false.
\<close>

theorem ClientPipe_Connect_counterexample:
  "fst (ClientPipe_Connect no_pipe_os ''nosuchpipe'' 50
          \<lparr>clientHandle = NULL_HANDLE, clientReadBuffer = []\<rparr> unit_world)
     = Inl (Error ''Failed to open client-side pipe.'' (Some ERROR_FILE_NOT_FOUND)) \<and>
   fst (ClientPipe_Connect no_pipe_os ''nosuchpipe'' 50
          \<lparr>clientHandle = NULL_HANDLE, clientReadBuffer = []\<rparr> unit_world)
     \<noteq> Inr False"
  by (simp add: ClientPipe_Connect_def ConnectPipeImmediately_def api_def no_pipe_os_def
      unit_world_def ERROR_FILE_NOT_FOUND_def ERROR_PIPE_BUSY_def)

text \<open>
  Claim C3, amended, on a system where all instances are busy and the wait of 50 ms
  times out: the result is false, after one open and one wait.
\<close>

theorem ClientPipe_Connect_witness:
  "ClientPipe_Connect busy_pipe_os ''testpipe'' 50
      \<lparr>clientHandle = NULL_HANDLE, clientReadBuffer = []\<rparr> unit_world
     = (Inr False, \<lparr>clientHandle = INVALID_HANDLE_VALUE, clientReadBuffer = []\<rparr>,
        unit_world\<lparr>lastError := ERROR_SEM_TIMEOUT,
          trace := [Api (CreateFile ''testpipe'')
                      \<lparr>ret = INVALID_HANDLE_VALUE, err = Some ERROR_PIPE_BUSY\<rparr>,
                    Api (WaitNamedPipe ''testpipe'' 50)
                      \<lparr>ret = 0, err = Some ERROR_SEM_TIMEOUT\<rparr>]\<rparr>)"
proof -
  let ?c = "\<lparr>clientHandle = NULL_HANDLE, clientReadBuffer = []\<rparr>"
  let ?a1 = "\<lparr>ret = INVALID_HANDLE_VALUE, err = Some ERROR_PIPE_BUSY\<rparr>"
  let ?w1 = "unit_world\<lparr>lastError := ERROR_PIPE_BUSY,
          trace := [Api (CreateFile ''testpipe'') ?a1]\<rparr>"
  let ?a2 = "\<lparr>ret = 0, err = Some ERROR_SEM_TIMEOUT\<rparr>"
  let ?w2 = "unit_world\<lparr>lastError := ERROR_SEM_TIMEOUT,
          trace := [Api (CreateFile ''testpipe'') ?a1, Api (WaitNamedPipe ''testpipe'' 50) ?a2]\<rparr>"
  have h: "api busy_pipe_os (CreateFile ''testpipe'') unit_world = (?a1, ?w1)"
    by (simp add: api_def busy_pipe_os_def issued_def unit_world_def)
  have b: "\<not> handle_valid (ret ?a1) \<and>
       (ret ?a1 = INVALID_HANDLE_VALUE \<longrightarrow> lastError ?w1 = ERROR_PIPE_BUSY)"
    by (simp add: handle_valid_def)
  have wt: "api busy_pipe_os (WaitNamedPipe ''testpipe'' (ucast (50 :: size_t))) ?w1 = (?a2, ?w2)"
    by (simp add: api_def busy_pipe_os_def issued_def unit_world_def)
  have "ret ?a2 = 0 \<and> lastError ?w2 = ERROR_SEM_TIMEOUT" by simp
  with ClientPipe_Connect_behaviour [OF h, of 50 ?c] b wt
  have "ClientPipe_Connect busy_pipe_os ''testpipe'' 50 ?c unit_world
      = (Inr False, ?c\<lparr>clientHandle := ret ?a1\<rparr>, ?w2)"
    by blast
  then show ?thesis by simp
qed

end
